theory Spec2Isabelle
  imports Complex_Main
begin

section \<open>Python values\<close>

text \<open>
  The services pass findings, scanner output and vulnerability data around as
  \<^verbatim>\<open>Dict[str, Any]\<close>. A value is one of the JSON-shaped Python values; a dict is an
  association list in insertion order, looked up by its first matching key.
  Strings are lists of 8-bit characters.
\<close>

datatype pyval =
    PNone
  | PBool bool
  | PInt int
  | PFloat real
  | PStr string
  | PList "pyval list"
  | PDict "(string \<times> pyval) list"

type_synonym pydict = "(string \<times> pyval) list"

text \<open>\<^verbatim>\<open>d.get(key, default)\<close> on a dict.\<close>

fun dict_get :: "pydict \<Rightarrow> string \<Rightarrow> pyval \<Rightarrow> pyval" where
  "dict_get [] k d = d"
| "dict_get ((k', v) # kvs) k d = (if k' = k then v else dict_get kvs k d)"

section \<open>Priority classes (ml\_service.py)\<close>

text \<open>
  \<^verbatim>\<open>get_priority_class(score)\<close>: an if/elif chain over the thresholds 0.8, 0.6, 0.4.
  The score is taken as a real number.
\<close>

definition get_priority_class :: "real \<Rightarrow> string" where
  "get_priority_class score =
     (if score \<ge> 0.8 then ''critical''
      else if score \<ge> 0.6 then ''high''
      else if score \<ge> 0.4 then ''medium''
      else ''low'')"

section \<open>Persistent entities (models/scan.py, models/ml\_model.py)\<close>

text \<open>
  One row of the \<^verbatim>\<open>scans\<close> table. Timestamps are readings of the clock, as natural
  numbers; \<^verbatim>\<open>started_at\<close> and \<^verbatim>\<open>completed_at\<close> are nullable. The status column is a
  plain string in the source and stays one here.
\<close>

record scan =
  id_scan :: nat
  name :: string
  scanner_type :: string
  asset_id :: "nat option"
  target_type :: string
  target_identifier :: string
  scan_depth :: string
  status :: string
  updated_at :: nat
  started_at :: "nat option"
  completed_at :: "nat option"
  vulnerabilities_count :: nat
  critical_count :: nat
  high_count :: nat
  medium_count :: nat
  low_count :: nat

text \<open>
  The keyword arguments of the \<^verbatim>\<open>Vulnerability(...)\<close> constructor call in
  \<^verbatim>\<open>create_vulnerability_from_finding\<close>. Fields filled from the finding hold whatever
  Python value the finding carries.
\<close>

record vulnerability =
  title :: pyval
  description :: pyval
  cve_id :: pyval
  severity :: pyval
  cvss_score :: pyval
  cvss_vector :: pyval
  v_asset_id :: "nat option"
  v_scan_id :: nat
  v_status :: string
  exploit_available :: pyval
  exploit_maturity :: pyval
  patch_available :: pyval
  affected_component :: pyval
  affected_version :: pyval
  business_impact :: pyval
  data_classification :: pyval
  system_exposure :: pyval
  metadata :: pyval
  v_created_at :: nat
  v_updated_at :: nat

text \<open>
  One row of \<^verbatim>\<open>ml_models\<close>. \<^verbatim>\<open>model_data\<close> is a nullable \<^verbatim>\<open>LargeBinary\<close>: \<open>None\<close> is
  NULL, \<open>Some bs\<close> a byte string, possibly empty.
\<close>

record ml_model =
  id_model :: nat
  m_name :: string
  m_status :: string
  hyperparameters :: "pydict option"
  metrics :: "pydict option"
  feature_importance :: "pyval option"
  model_data :: "string option"
  m_updated_at :: nat

text \<open>The database session: the three tables, in table order.\<close>

record database =
  scans :: "scan list"
  vulnerabilities :: "vulnerability list"
  ml_models :: "ml_model list"

section \<open>Scan service (scan\_service.py)\<close>

text \<open>\<^verbatim>\<open>db.query(Scan).filter(Scan.id == scan_id).first()\<close>\<close>

definition get_scan :: "database \<Rightarrow> nat \<Rightarrow> scan option" where
  "get_scan db scan_id = find (\<lambda>s. id_scan s = scan_id) (scans db)"

text \<open>
  \<^verbatim>\<open>db.commit()\<close> after attribute assignments on a loaded row: the row with that
  primary key is replaced by the modified object.
\<close>

definition commit_scan :: "database \<Rightarrow> scan \<Rightarrow> database" where
  "commit_scan db s =
     db\<lparr>scans := map (\<lambda>x. if id_scan x = id_scan s then s else x) (scans db)\<rparr>"

text \<open>
  \<^verbatim>\<open>start_scan(db, scan_id)\<close>. The argument \<open>now\<close> is the reading of
  \<^verbatim>\<open>datetime.now()\<close> during the call. There is no test of the current status.
\<close>

definition start_scan :: "database \<Rightarrow> nat \<Rightarrow> nat \<Rightarrow> database \<times> scan option" where
  "start_scan db now scan_id =
     (case get_scan db scan_id of
        None \<Rightarrow> (db, None)
      | Some db_scan \<Rightarrow>
          (let db_scan' = db_scan\<lparr>status := ''running'', started_at := Some now,
                                   updated_at := now\<rparr>
           in (commit_scan db db_scan', Some db_scan')))"

text \<open>\<^verbatim>\<open>stop_scan(db, scan_id)\<close>\<close>

definition stop_scan :: "database \<Rightarrow> nat \<Rightarrow> nat \<Rightarrow> database \<times> scan option" where
  "stop_scan db now scan_id =
     (case get_scan db scan_id of
        None \<Rightarrow> (db, None)
      | Some db_scan \<Rightarrow>
          (let db_scan' = db_scan\<lparr>status := ''stopped'', updated_at := now\<rparr>
           in (commit_scan db db_scan', Some db_scan')))"

text \<open>
  \<^verbatim>\<open>update_scan_status\<close>. The \<^verbatim>\<open>message\<close> argument is accepted and not stored.
\<close>

definition update_scan_status ::
  "database \<Rightarrow> nat \<Rightarrow> nat \<Rightarrow> string \<Rightarrow> string option \<Rightarrow>
   nat option \<Rightarrow> nat option \<Rightarrow> nat option \<Rightarrow> nat option \<Rightarrow> nat option \<Rightarrow>
   database \<times> scan option" where
  "update_scan_status db now scan_id new_status message
      vulnerabilities_count_arg critical_count_arg high_count_arg medium_count_arg
      low_count_arg =
     (case get_scan db scan_id of
        None \<Rightarrow> (db, None)
      | Some db_scan \<Rightarrow>
          (let s1 = db_scan\<lparr>status := new_status, updated_at := now\<rparr>;
               s2 = (if new_status = ''completed'' then s1\<lparr>completed_at := Some now\<rparr> else s1);
               s3 = (case vulnerabilities_count_arg of None \<Rightarrow> s2
                     | Some n \<Rightarrow> s2\<lparr>vulnerabilities_count := n\<rparr>);
               s4 = (case critical_count_arg of None \<Rightarrow> s3
                     | Some n \<Rightarrow> s3\<lparr>critical_count := n\<rparr>);
               s5 = (case high_count_arg of None \<Rightarrow> s4
                     | Some n \<Rightarrow> s4\<lparr>high_count := n\<rparr>);
               s6 = (case medium_count_arg of None \<Rightarrow> s5
                     | Some n \<Rightarrow> s5\<lparr>medium_count := n\<rparr>);
               s7 = (case low_count_arg of None \<Rightarrow> s6
                     | Some n \<Rightarrow> s6\<lparr>low_count := n\<rparr>)
           in (commit_scan db s7, Some s7)))"

text \<open>
  \<^verbatim>\<open>create_vulnerability_from_finding\<close>: every field read from the finding is
  \<^verbatim>\<open>finding.get(key, default)\<close>; the new row is added to the table.
\<close>

definition vulnerability_from_finding ::
  "nat \<Rightarrow> nat \<Rightarrow> nat option \<Rightarrow> pydict \<Rightarrow> vulnerability" where
  "vulnerability_from_finding now scan_id asset_id_arg finding =
     \<lparr> title = dict_get finding ''title'' (PStr ''Unknown''),
       description = dict_get finding ''description'' (PStr []),
       cve_id = dict_get finding ''cve_id'' (PStr []),
       severity = dict_get finding ''severity'' (PStr ''low''),
       cvss_score = dict_get finding ''cvss_score'' (PFloat 0.0),
       cvss_vector = dict_get finding ''cvss_vector'' (PStr []),
       v_asset_id = asset_id_arg,
       v_scan_id = scan_id,
       v_status = ''open'',
       exploit_available = dict_get finding ''exploit_available'' (PBool False),
       exploit_maturity = dict_get finding ''exploit_maturity'' (PStr []),
       patch_available = dict_get finding ''patch_available'' (PBool False),
       affected_component = dict_get finding ''affected_component'' (PStr []),
       affected_version = dict_get finding ''affected_version'' (PStr []),
       business_impact = dict_get finding ''business_impact'' (PStr []),
       data_classification = dict_get finding ''data_classification'' (PStr []),
       system_exposure = dict_get finding ''system_exposure'' (PStr []),
       metadata = dict_get finding ''metadata'' (PDict []),
       v_created_at = now,
       v_updated_at = now \<rparr>"

definition create_vulnerability_from_finding ::
  "database \<Rightarrow> nat \<Rightarrow> nat \<Rightarrow> nat option \<Rightarrow> pydict \<Rightarrow> database \<times> vulnerability" where
  "create_vulnerability_from_finding db now scan_id asset_id_arg finding =
     (let v = vulnerability_from_finding now scan_id asset_id_arg finding
      in (db\<lparr>vulnerabilities := vulnerabilities db @ [v]\<rparr>, v))"

section \<open>Scan endpoints (api/endpoints/scans.py)\<close>

text \<open>\<^verbatim>\<open>HTTPException(status_code, detail)\<close>\<close>

datatype http_exception = HTTPException nat string

text \<open>
  \<^verbatim>\<open>start_scan_endpoint\<close>. \<open>background_tasks\<close> is the queue of scan ids handed to
  \<^verbatim>\<open>run_scan_task\<close>; the endpoint returns it extended. The only rejection is a
  missing scan.
\<close>

definition start_scan_endpoint ::
  "database \<Rightarrow> nat \<Rightarrow> nat list \<Rightarrow> nat \<Rightarrow>
   database \<times> nat list \<times> (http_exception + scan option)" where
  "start_scan_endpoint db now background_tasks scan_id =
     (case get_scan db scan_id of
        None \<Rightarrow> (db, background_tasks, Inl (HTTPException 404 ''Scan not found''))
      | Some found \<Rightarrow>
          (case start_scan db now scan_id of
             (db', updated_scan) \<Rightarrow>
               (db', background_tasks @ [scan_id], Inr updated_scan)))"

text \<open>\<^verbatim>\<open>stop_scan_endpoint\<close>: 404 for a missing scan, 400 unless the status is running.\<close>

definition stop_scan_endpoint ::
  "database \<Rightarrow> nat \<Rightarrow> nat \<Rightarrow> database \<times> (http_exception + scan option)" where
  "stop_scan_endpoint db now scan_id =
     (case get_scan db scan_id of
        None \<Rightarrow> (db, Inl (HTTPException 404 ''Scan not found''))
      | Some found \<Rightarrow>
          (if status found \<noteq> ''running''
           then (db, Inl (HTTPException 400 ''Scan is not running''))
           else (case stop_scan db now scan_id of
                   (db', stopped) \<Rightarrow> (db', Inr stopped))))"

text \<open>An example row, used to evaluate the operations on concrete databases.\<close>

definition example_scan :: "string \<Rightarrow> string \<Rightarrow> scan" where
  "example_scan kind st =
     \<lparr> id_scan = 1, name = ''nightly'', scanner_type = kind, asset_id = Some 7,
       target_type = ''container'', target_identifier = ''ubuntu:20.04'',
       scan_depth = ''normal'', status = st, updated_at = 10,
       started_at = (if st = ''pending'' then None else Some 10), completed_at = None,
       vulnerabilities_count = 0, critical_count = 0, high_count = 0,
       medium_count = 0, low_count = 0 \<rparr>"

definition example_db :: "string \<Rightarrow> string \<Rightarrow> database" where
  "example_db kind st =
     \<lparr> scans = [example_scan kind st], vulnerabilities = [], ml_models = [] \<rparr>"

section \<open>Exceptions and conversions of the Python runtime\<close>

text \<open>
  Exceptions are values. Each class carries \<^verbatim>\<open>str(e)\<close>; \<open>CalledProcessError\<close> also
  carries the captured standard error of the external process. All of them derive from
  \<^verbatim>\<open>Exception\<close>.
\<close>

datatype exn =
    CalledProcessError string string
  | JSONDecodeError string
  | OSError string
  | AttributeError string
  | TypeError string
  | ValueError string
  | IndexError string
  | OverflowError string

text \<open>\<^verbatim>\<open>str(e)\<close>\<close>

fun str_exn :: "exn \<Rightarrow> string" where
  "str_exn (CalledProcessError m stderr) = m"
| "str_exn (JSONDecodeError m) = m"
| "str_exn (OSError m) = m"
| "str_exn (AttributeError m) = m"
| "str_exn (TypeError m) = m"
| "str_exn (ValueError m) = m"
| "str_exn (IndexError m) = m"
| "str_exn (OverflowError m) = m"

fun bind_exn :: "exn + 'a \<Rightarrow> ('a \<Rightarrow> exn + 'b) \<Rightarrow> exn + 'b" where
  "bind_exn (Inl e) f = Inl e"
| "bind_exn (Inr x) f = f x"

text \<open>
  Parsing of numeric strings by \<^verbatim>\<open>int(s)\<close> and \<^verbatim>\<open>float(s)\<close> is left to the runtime:
  \<open>None\<close> stands for the \<^verbatim>\<open>ValueError\<close> of an unparsable string.
\<close>

record runtime =
  int_of_str :: "string \<Rightarrow> int option"
  float_of_str :: "string \<Rightarrow> real option"

fun type_name :: "pyval \<Rightarrow> string" where
  "type_name PNone = ''NoneType''"
| "type_name (PBool b) = ''bool''"
| "type_name (PInt i) = ''int''"
| "type_name (PFloat r) = ''float''"
| "type_name (PStr s) = ''str''"
| "type_name (PList xs) = ''list''"
| "type_name (PDict kvs) = ''dict''"

text \<open>
  \<^verbatim>\<open>int(x)\<close>: booleans and integers convert, floats truncate towards zero. Floats are
  real numbers here, so infinities and NaN, for which \<^verbatim>\<open>int\<close> raises, are not
  values of the model.
\<close>

fun py_int :: "runtime \<Rightarrow> pyval \<Rightarrow> exn + int" where
  "py_int rt (PBool b) = Inr (if b then 1 else 0)"
| "py_int rt (PInt i) = Inr i"
| "py_int rt (PFloat r) = Inr (if 0 \<le> r then \<lfloor>r\<rfloor> else \<lceil>r\<rceil>)"
| "py_int rt (PStr s) =
     (case int_of_str rt s of
        Some i \<Rightarrow> Inr i
      | None \<Rightarrow>
          Inl (ValueError (''invalid literal for int() with base 10: ''
                 @ [CHR 0x27] @ s @ [CHR 0x27])))"
| "py_int rt v =
     Inl (TypeError (''int() argument must be a string, a bytes-like object or a real number, not ''
            @ [CHR 0x27] @ type_name v @ [CHR 0x27]))"

text \<open>
  \<^verbatim>\<open>float(x)\<close>. An integer converts unless it rounds beyond the largest double, which
  raises \<^verbatim>\<open>OverflowError\<close>; the value of a converted integer is taken exactly.
\<close>

fun py_float :: "runtime \<Rightarrow> pyval \<Rightarrow> exn + real" where
  "py_float rt (PBool b) = Inr (if b then 1 else 0)"
| "py_float rt (PInt i) =
     (if \<bar>i\<bar> < 2 ^ 1024 - 2 ^ 970 then Inr (of_int i)
      else Inl (OverflowError ''int too large to convert to float''))"
| "py_float rt (PFloat r) = Inr r"
| "py_float rt (PStr s) =
     (case float_of_str rt s of
        Some r \<Rightarrow> Inr r
      | None \<Rightarrow>
          Inl (ValueError (''could not convert string to float: ''
                 @ [CHR 0x27] @ s @ [CHR 0x27])))"
| "py_float rt v =
     Inl (TypeError (''float() argument must be a string or a real number, not ''
            @ [CHR 0x27] @ type_name v @ [CHR 0x27]))"

text \<open>
  \<^verbatim>\<open>s.lower()\<close>; only a \<^verbatim>\<open>str\<close> has the method. Characters are 8-bit, and the
  letters A to Z are the ones lower-cased.
\<close>

definition lower_char :: "char \<Rightarrow> char" where
  "lower_char c =
     (case map_of (zip ''ABCDEFGHIJKLMNOPQRSTUVWXYZ'' ''abcdefghijklmnopqrstuvwxyz'') c of
        None \<Rightarrow> c
      | Some l \<Rightarrow> l)"

fun py_lower :: "pyval \<Rightarrow> exn + string" where
  "py_lower (PStr s) = Inr (map lower_char s)"
| "py_lower v =
     Inl (AttributeError ([CHR 0x27] @ type_name v @ [CHR 0x27] @ '' object has no attribute ''
            @ [CHR 0x27] @ ''lower'' @ [CHR 0x27]))"

text \<open>\<^verbatim>\<open>d[key] = value\<close>: an existing key keeps its position, a new key goes last.\<close>

fun dict_set :: "pydict \<Rightarrow> string \<Rightarrow> pyval \<Rightarrow> pydict" where
  "dict_set [] k v = [(k, v)]"
| "dict_set ((k', v') # kvs) k v =
     (if k' = k then (k, v) # kvs else (k', v') # dict_set kvs k v)"

text \<open>\<^verbatim>\<open>int(a == b)\<close>\<close>

definition int_eq :: "string \<Rightarrow> string \<Rightarrow> pyval" where
  "int_eq a b = PInt (if a = b then 1 else 0)"

section \<open>Feature extraction (ml\_service.py, \_get\_vulnerability\_features)\<close>

text \<open>
  The dict literal evaluates its three entries in order, so \<^verbatim>\<open>int(...)\<close> of the exploit
  flag can raise before that of the patch flag; each categorical field is fetched with
  its default and lower-cased, which raises for a value that is not a string; the
  one-hot entries are then assigned one by one.
\<close>

definition get_vulnerability_features :: "runtime \<Rightarrow> pydict \<Rightarrow> exn + pydict" where
  "get_vulnerability_features rt vulnerability_data =
     (let cvss = dict_get vulnerability_data ''cvss_score'' (PFloat 0.0) in
      bind_exn (py_int rt (dict_get vulnerability_data ''exploit_available'' (PBool False))) (\<lambda>ea.
      bind_exn (py_int rt (dict_get vulnerability_data ''patch_available'' (PBool False))) (\<lambda>pa.
      let f0 = [(''cvss_score'', cvss), (''exploit_available'', PInt ea),
                (''patch_available'', PInt pa)] in
      bind_exn (py_lower (dict_get vulnerability_data ''severity'' (PStr ''low''))) (\<lambda>sev.
      let f1 = dict_set f0 ''severity_critical'' (int_eq sev ''critical'');
          f2 = dict_set f1 ''severity_high'' (int_eq sev ''high'');
          f3 = dict_set f2 ''severity_medium'' (int_eq sev ''medium'');
          f4 = dict_set f3 ''severity_low'' (int_eq sev ''low'') in
      bind_exn (py_lower (dict_get vulnerability_data ''exploit_maturity'' (PStr []))) (\<lambda>em.
      let f5 = dict_set f4 ''exploit_maturity_high'' (int_eq em ''high'');
          f6 = dict_set f5 ''exploit_maturity_functional'' (int_eq em ''functional'');
          f7 = dict_set f6 ''exploit_maturity_poc'' (int_eq em ''poc'');
          f8 = dict_set f7 ''exploit_maturity_unproven'' (int_eq em ''unproven'') in
      bind_exn (py_lower (dict_get vulnerability_data ''business_impact'' (PStr []))) (\<lambda>bi.
      let f9 = dict_set f8 ''business_impact_critical'' (int_eq bi ''critical'');
          f10 = dict_set f9 ''business_impact_high'' (int_eq bi ''high'');
          f11 = dict_set f10 ''business_impact_medium'' (int_eq bi ''medium'');
          f12 = dict_set f11 ''business_impact_low'' (int_eq bi ''low'') in
      bind_exn (py_lower (dict_get vulnerability_data ''data_classification'' (PStr []))) (\<lambda>dc.
      let f13 = dict_set f12 ''data_classification_restricted'' (int_eq dc ''restricted'');
          f14 = dict_set f13 ''data_classification_confidential'' (int_eq dc ''confidential'');
          f15 = dict_set f14 ''data_classification_internal'' (int_eq dc ''internal'');
          f16 = dict_set f15 ''data_classification_public'' (int_eq dc ''public'') in
      bind_exn (py_lower (dict_get vulnerability_data ''system_exposure'' (PStr []))) (\<lambda>se.
      let f17 = dict_set f16 ''system_exposure_internet'' (int_eq se ''internet'');
          f18 = dict_set f17 ''system_exposure_intranet'' (int_eq se ''intranet'');
          f19 = dict_set f18 ''system_exposure_internal'' (int_eq se ''internal'');
          f20 = dict_set f19 ''system_exposure_isolated'' (int_eq se ''isolated'') in
      Inr f20))))))))"

text \<open>The 23 feature names in the order the extractor inserts them.\<close>

definition feature_names :: "string list" where
  "feature_names =
     [''cvss_score'', ''exploit_available'', ''patch_available'',
      ''severity_critical'', ''severity_high'', ''severity_medium'', ''severity_low'',
      ''exploit_maturity_high'', ''exploit_maturity_functional'', ''exploit_maturity_poc'',
      ''exploit_maturity_unproven'',
      ''business_impact_critical'', ''business_impact_high'', ''business_impact_medium'',
      ''business_impact_low'',
      ''data_classification_restricted'', ''data_classification_confidential'',
      ''data_classification_internal'', ''data_classification_public'',
      ''system_exposure_internet'', ''system_exposure_intranet'',
      ''system_exposure_internal'', ''system_exposure_isolated'']"

text \<open>
  What the extractor is to return, stated field by field. The text of a categorical
  field is its lower-cased string, or the default when the field is absent.
\<close>

definition field_text :: "pydict \<Rightarrow> string \<Rightarrow> string \<Rightarrow> string" where
  "field_text vd k d = (case map_of vd k of Some (PStr s) \<Rightarrow> map lower_char s | _ \<Rightarrow> d)"

text \<open>The number of a flag: what \<^verbatim>\<open>int\<close> gives for it, or 0 when the flag is absent.\<close>

definition field_flag :: "runtime \<Rightarrow> pydict \<Rightarrow> string \<Rightarrow> int" where
  "field_flag rt vd k =
     (case map_of vd k of
        None \<Rightarrow> 0
      | Some v \<Rightarrow> (case py_int rt v of Inr i \<Rightarrow> i | Inl e \<Rightarrow> 0))"

text \<open>
  One indicator per value of a categorical field, named field\_value, which is 1 exactly
  when the text of the field is that value.
\<close>

definition one_hot :: "string \<Rightarrow> string list \<Rightarrow> string \<Rightarrow> pydict" where
  "one_hot field vs s = map (\<lambda>v. (field @ ''_'' @ v, PInt (if s = v then 1 else 0))) vs"

text \<open>
  The expected feature dictionary: the CVSS score as given (0.0 when absent), the two
  flags, then the indicators of severity (absent counts as "low"), exploit maturity,
  business impact, data classification and system exposure (absent counts as the empty
  text).
\<close>

definition expected_features :: "runtime \<Rightarrow> pydict \<Rightarrow> pydict" where
  "expected_features rt vd =
     [(''cvss_score'', (case map_of vd ''cvss_score'' of None \<Rightarrow> PFloat 0 | Some v \<Rightarrow> v)),
      (''exploit_available'', PInt (field_flag rt vd ''exploit_available'')),
      (''patch_available'', PInt (field_flag rt vd ''patch_available''))]
     @ one_hot ''severity'' [''critical'', ''high'', ''medium'', ''low'']
         (field_text vd ''severity'' ''low'')
     @ one_hot ''exploit_maturity'' [''high'', ''functional'', ''poc'', ''unproven'']
         (field_text vd ''exploit_maturity'' [])
     @ one_hot ''business_impact'' [''critical'', ''high'', ''medium'', ''low'']
         (field_text vd ''business_impact'' [])
     @ one_hot ''data_classification'' [''restricted'', ''confidential'', ''internal'', ''public'']
         (field_text vd ''data_classification'' [])
     @ one_hot ''system_exposure'' [''internet'', ''intranet'', ''internal'', ''isolated'']
         (field_text vd ''system_exposure'' [])"

text \<open>A runtime whose parsers reject every string, for evaluating concrete inputs.\<close>

definition example_runtime :: runtime where
  "example_runtime = \<lparr> int_of_str = (\<lambda>s. None), float_of_str = (\<lambda>s. None) \<rparr>"

section \<open>Model selection, training and prediction (ml\_service.py)\<close>

text \<open>\<^verbatim>\<open>db.query(MLModel).filter(MLModel.id == model_id).first()\<close>\<close>

definition get_model :: "database \<Rightarrow> int \<Rightarrow> ml_model option" where
  "get_model db model_id = find (\<lambda>m. int (id_model m) = model_id) (ml_models db)"

definition commit_model :: "database \<Rightarrow> ml_model \<Rightarrow> database" where
  "commit_model db m =
     db\<lparr>ml_models := map (\<lambda>x. if id_model x = id_model m then m else x) (ml_models db)\<rparr>"




text \<open>
  The fit of \<^verbatim>\<open>train_model\<close> (synthetic data, split, hyperparameter merge, gradient
  boosting fit, metrics, importances, \<^verbatim>\<open>pickle.dumps\<close>) is library code: it is a
  parameter that, from the stored hyperparameters and the request parameters, either
  raises or yields what is then written to the row.
\<close>

record fit_output =
  fo_hyperparameters :: pydict
  fo_metrics :: pydict
  fo_feature_importance :: pyval
  fo_model_data :: string

text \<open>
  \<^verbatim>\<open>train_model(db, model_id, params)\<close>: status training is committed first; the row
  receives the payload only after the whole fit has returned; the handler sets status
  error and commits.
\<close>

definition train_model ::
  "(pydict option \<Rightarrow> pydict \<Rightarrow> exn + fit_output) \<Rightarrow>
   database \<Rightarrow> nat \<Rightarrow> int \<Rightarrow> pydict \<Rightarrow> database \<times> ml_model option" where
  "train_model fit db now model_id params =
     (case get_model db model_id of
        None \<Rightarrow> (db, None)
      | Some db_model \<Rightarrow>
          (let m1 = db_model\<lparr>m_status := ''training'', m_updated_at := now\<rparr>;
               db1 = commit_model db m1
           in case fit (hyperparameters m1) params of
                Inr out \<Rightarrow>
                  (let m2 = m1\<lparr>hyperparameters := Some (fo_hyperparameters out),
                               metrics := Some (fo_metrics out),
                               feature_importance := Some (fo_feature_importance out),
                               model_data := Some (fo_model_data out),
                               m_status := ''trained'',
                               m_updated_at := now\<rparr>
                   in (commit_model db1 m2, Some m2))
              | Inl e \<Rightarrow>
                  (let m3 = m1\<lparr>m_status := ''error'', m_updated_at := now\<rparr>
                   in (commit_model db1 m3, None))))"




text \<open>Example rows for evaluating model selection and training.\<close>

definition example_model :: "nat \<Rightarrow> string \<Rightarrow> string option \<Rightarrow> nat \<Rightarrow> ml_model" where
  "example_model i st payload t =
     \<lparr> id_model = i, m_name = ''gb'', m_status = st, hyperparameters = None,
       metrics = None, feature_importance = None, model_data = payload,
       m_updated_at = t \<rparr>"

definition example_models :: database where
  "example_models =
     \<lparr> scans = [], vulnerabilities = [],
       ml_models = [example_model 1 ''trained'' (Some ''pickle-1'') 5,
                    example_model 2 ''trained'' (Some ''pickle-2'') 9,
                    example_model 3 ''created'' None 12] \<rparr>"


section \<open>Scanner adapters (scan\_tasks.py)\<close>

text \<open>\<^verbatim>\<open>x.get(key, default)\<close> on any value: only a dict has the method.\<close>

fun py_get :: "pyval \<Rightarrow> string \<Rightarrow> pyval \<Rightarrow> exn + pyval" where
  "py_get (PDict kvs) k d = Inr (dict_get kvs k d)"
| "py_get v k d =
     Inl (AttributeError ([CHR 0x27] @ type_name v @ [CHR 0x27] @ '' object has no attribute ''
            @ [CHR 0x27] @ ''get'' @ [CHR 0x27]))"

text \<open>
  \<^verbatim>\<open>for x in v\<close>: a list gives its elements, a dict its keys, a string its characters;
  nothing else can be iterated.
\<close>

fun py_iter :: "pyval \<Rightarrow> exn + pyval list" where
  "py_iter (PList xs) = Inr xs"
| "py_iter (PDict kvs) = Inr (map (\<lambda>kv. PStr (fst kv)) kvs)"
| "py_iter (PStr s) = Inr (map (\<lambda>c. PStr [c]) s)"
| "py_iter v =
     Inl (TypeError ([CHR 0x27] @ type_name v @ [CHR 0x27] @ '' object is not iterable''))"

text \<open>A loop body that may raise, run over a list: the first exception ends the loop.\<close>

fun map_exn :: "('a \<Rightarrow> exn + 'b) \<Rightarrow> 'a list \<Rightarrow> exn + 'b list" where
  "map_exn f [] = Inr []"
| "map_exn f (x # xs) =
     bind_exn (f x) (\<lambda>y. bind_exn (map_exn f xs) (\<lambda>ys. Inr (y # ys)))"

text \<open>\<^verbatim>\<open>str(n)\<close> of a non-negative integer.\<close>

definition digit_char :: "nat \<Rightarrow> char" where
  "digit_char d = ''0123456789'' ! d"

fun str_nat :: "nat \<Rightarrow> string" where
  "str_nat n = (if n < 10 then [digit_char n] else str_nat (n div 10) @ [digit_char (n mod 10)])"

declare str_nat.simps [simp del]

text \<open>The two tool paths of \<^verbatim>\<open>settings\<close>.\<close>

record settings =
  TRIVY_PATH :: string
  DEPENDENCY_CHECK_PATH :: string

text \<open>
  What lies outside the program: \<^verbatim>\<open>subprocess.run(cmd, check=True)\<close> gives the standard
  output or raises (\<open>CalledProcessError\<close> for a non-zero exit, \<open>OSError\<close> when the
  tool cannot be started); \<^verbatim>\<open>json.loads\<close> gives a value or raises; reading and removing
  the report file may raise; so may \<^verbatim>\<open>send_notification\<close>.
\<close>

record world =
  subprocess_run :: "string list \<Rightarrow> exn + string"
  json_loads :: "string \<Rightarrow> exn + pyval"
  read_file :: "string \<Rightarrow> exn + string"
  os_remove :: "string \<Rightarrow> exn option"
  send_notification :: "string \<Rightarrow> string \<Rightarrow> string \<Rightarrow> exn option"

text \<open>The result dict of an adapter; a failed result has no \<^verbatim>\<open>raw_output\<close>.\<close>

record scan_results =
  r_status :: string
  r_message :: string
  r_findings :: "pydict list"
  r_raw_output :: "pyval option"

definition failed_results :: "string \<Rightarrow> scan_results" where
  "failed_results msg =
     \<lparr> r_status = ''failed'', r_message = msg, r_findings = [], r_raw_output = None \<rparr>"

definition success_results :: "pydict list \<Rightarrow> pyval \<Rightarrow> scan_results" where
  "success_results findings output =
     \<lparr> r_status = ''success'', r_message = ''Scan completed successfully'',
       r_findings = findings, r_raw_output = Some output \<rparr>"

subsection \<open>Trivy\<close>

definition trivy_cmd :: "settings \<Rightarrow> scan \<Rightarrow> string list" where
  "trivy_cmd st sc =
     [TRIVY_PATH st, ''--format'', ''json'', ''--severity'', ''CRITICAL,HIGH,MEDIUM,LOW'']
     @ (if scan_depth sc = ''quick'' then [''--light'']
        else if scan_depth sc = ''deep'' then [''--list-all-pkgs''] else [])
     @ (if target_type sc = ''container'' then [''image'']
        else if target_type sc = ''repository'' then [''fs''] else [])
     @ [target_identifier sc]"

text \<open>The finding built for one vulnerability \<open>vuln\<close> of one result \<open>res\<close>.\<close>

definition trivy_finding :: "runtime \<Rightarrow> pyval \<Rightarrow> pyval \<Rightarrow> exn + pydict" where
  "trivy_finding rt res vuln =
     bind_exn (py_get vuln ''VulnerabilityID'' (PStr ''Unknown'')) (\<lambda>vid.
     bind_exn (py_get vuln ''Title'' vid) (\<lambda>title_v.
     bind_exn (py_get vuln ''Description'' (PStr [])) (\<lambda>description_v.
     bind_exn (py_get vuln ''VulnerabilityID'' (PStr [])) (\<lambda>cve_v.
     bind_exn (py_get vuln ''Severity'' (PStr [])) (\<lambda>sev0.
     bind_exn (py_lower sev0) (\<lambda>sev.
     bind_exn (py_get vuln ''CVSS'' (PDict [])) (\<lambda>c1.
     bind_exn (py_get c1 ''nvd'' (PDict [])) (\<lambda>n1.
     bind_exn (py_get n1 ''V3Score'' (PFloat 0.0)) (\<lambda>sc0.
     bind_exn (py_float rt sc0) (\<lambda>score.
     bind_exn (py_get vuln ''CVSS'' (PDict [])) (\<lambda>c2.
     bind_exn (py_get c2 ''nvd'' (PDict [])) (\<lambda>n2.
     bind_exn (py_get n2 ''V3Vector'' (PStr [])) (\<lambda>vector_v.
     bind_exn (py_get res ''Target'' (PStr [])) (\<lambda>component_v.
     bind_exn (py_get vuln ''InstalledVersion'' (PStr [])) (\<lambda>version_v.
     bind_exn (py_get vuln ''ExploitAvailable'' (PBool False)) (\<lambda>exploit_v.
     bind_exn (py_get vuln ''FixedVersion'' (PStr [])) (\<lambda>fixed1.
     bind_exn (py_get vuln ''PkgName'' (PStr [])) (\<lambda>pkg_v.
     bind_exn (py_get vuln ''FixedVersion'' (PStr [])) (\<lambda>fixed2.
     bind_exn (py_get vuln ''References'' (PList [])) (\<lambda>refs_v.
     Inr [(''title'', title_v),
          (''description'', description_v),
          (''cve_id'', cve_v),
          (''severity'', PStr sev),
          (''cvss_score'', PFloat score),
          (''cvss_vector'', vector_v),
          (''affected_component'', component_v),
          (''affected_version'', version_v),
          (''exploit_available'', exploit_v),
          (''patch_available'', PBool (fixed1 \<noteq> PStr [])),
          (''metadata'', PDict [(''package_name'', pkg_v),
                                (''fixed_version'', fixed2),
                                (''references'', refs_v)])]))))))))))))))))))))"

text \<open>The two nested loops over \<^verbatim>\<open>Results\<close> and \<^verbatim>\<open>Vulnerabilities\<close>.\<close>

definition trivy_findings :: "runtime \<Rightarrow> pyval \<Rightarrow> exn + pydict list" where
  "trivy_findings rt output =
     bind_exn (py_get output ''Results'' (PList [])) (\<lambda>rs.
     bind_exn (py_iter rs) (\<lambda>results.
     bind_exn (map_exn (\<lambda>res.
                 bind_exn (py_get res ''Vulnerabilities'' (PList [])) (\<lambda>vs.
                 bind_exn (py_iter vs) (\<lambda>vulns.
                 map_exn (trivy_finding rt res) vulns))) results) (\<lambda>fss.
     Inr (concat fss))))"

text \<open>The \<^verbatim>\<open>try\<close> block of \<^verbatim>\<open>run_trivy_scan\<close>.\<close>

definition trivy_body :: "settings \<Rightarrow> world \<Rightarrow> runtime \<Rightarrow> scan \<Rightarrow> exn + scan_results" where
  "trivy_body st w rt sc =
     bind_exn (subprocess_run w (trivy_cmd st sc)) (\<lambda>stdout.
     bind_exn (json_loads w stdout) (\<lambda>output.
     bind_exn (trivy_findings rt output) (\<lambda>findings.
     Inr (success_results findings output))))"

text \<open>
  \<^verbatim>\<open>run_trivy_scan\<close>: the first handler takes \<open>CalledProcessError\<close> and reports the
  standard error, the second takes every other \<^verbatim>\<open>Exception\<close>.
\<close>

definition run_trivy_scan :: "settings \<Rightarrow> world \<Rightarrow> runtime \<Rightarrow> scan \<Rightarrow> scan_results" where
  "run_trivy_scan st w rt sc =
     (case trivy_body st w rt sc of
        Inr results \<Rightarrow> results
      | Inl (CalledProcessError msg stderr) \<Rightarrow>
          failed_results (''Trivy scan failed: '' @ stderr)
      | Inl e \<Rightarrow> failed_results (''Error running Trivy scan: '' @ str_exn e))"

subsection \<open>OpenVAS\<close>

text \<open>\<^verbatim>\<open>run_openvas_scan\<close> is a placeholder that returns two fixed findings.\<close>

definition openvas_findings :: "pydict list" where
  "openvas_findings =
     [[(''title'', PStr ''SSH Weak Encryption Algorithms Supported''),
       (''description'',
          PStr ''The SSH server is configured to support weak encryption algorithms.''),
       (''cve_id'', PStr ''CVE-2020-14145''),
       (''severity'', PStr ''medium''),
       (''cvss_score'', PFloat 5.3),
       (''cvss_vector'', PStr ''CVSS:3.1/AV:N/AC:L/PR:N/UI:N/S:U/C:L/I:N/A:N''),
       (''affected_component'', PStr ''SSH''),
       (''affected_version'', PStr ''OpenSSH 7.9''),
       (''exploit_available'', PBool False),
       (''patch_available'', PBool True),
       (''metadata'', PDict [(''port'', PStr ''22''), (''protocol'', PStr ''tcp''),
          (''solution'',
             PStr ''Configure SSH server to disable weak encryption algorithms.'')])],
      [(''title'', PStr ''HTTP TRACE/TRACK Methods Allowed''),
       (''description'',
          PStr ''The HTTP TRACE/TRACK methods are enabled on the web server.''),
       (''cve_id'', PStr ''CVE-2004-2320''),
       (''severity'', PStr ''low''),
       (''cvss_score'', PFloat 3.7),
       (''cvss_vector'', PStr ''CVSS:3.1/AV:N/AC:H/PR:N/UI:N/S:U/C:L/I:N/A:N''),
       (''affected_component'', PStr ''Web Server''),
       (''affected_version'', PStr ''Apache 2.4.41''),
       (''exploit_available'', PBool True),
       (''patch_available'', PBool True),
       (''metadata'', PDict [(''port'', PStr ''80''), (''protocol'', PStr ''tcp''),
          (''solution'',
             PStr ''Disable TRACE/TRACK methods in web server configuration.'')])]]"

definition run_openvas_scan :: "scan \<Rightarrow> scan_results" where
  "run_openvas_scan sc =
     success_results openvas_findings
       (PDict [(''results'', PList (map PDict openvas_findings))])"

subsection \<open>Dependency-Check\<close>

definition report_path :: "scan \<Rightarrow> string" where
  "report_path sc = ''dependency-check-report-'' @ str_nat (id_scan sc) @ ''.json''"

definition dependency_check_cmd :: "settings \<Rightarrow> scan \<Rightarrow> string list" where
  "dependency_check_cmd st sc =
     [DEPENDENCY_CHECK_PATH st, ''--scan'', target_identifier sc, ''--format'', ''JSON'',
      ''--out'', report_path sc]
     @ (if scan_depth sc = ''quick'' then [''--disableRetireJS'']
        else if scan_depth sc = ''deep'' then [''--enableExperimental''] else [])"

definition dependency_check_finding :: "runtime \<Rightarrow> pyval \<Rightarrow> pyval \<Rightarrow> exn + pydict" where
  "dependency_check_finding rt dependency vuln =
     bind_exn (py_get vuln ''name'' (PStr ''Unknown'')) (\<lambda>title_v.
     bind_exn (py_get vuln ''description'' (PStr [])) (\<lambda>description_v.
     bind_exn (py_get vuln ''name'' (PStr [])) (\<lambda>cve_v.
     bind_exn (py_get vuln ''severity'' (PStr [])) (\<lambda>sev0.
     bind_exn (py_lower sev0) (\<lambda>sev.
     bind_exn (py_get vuln ''cvssv3'' (PDict [])) (\<lambda>c1.
     bind_exn (py_get c1 ''baseScore'' (PFloat 0.0)) (\<lambda>sc0.
     bind_exn (py_float rt sc0) (\<lambda>score.
     bind_exn (py_get vuln ''cvssv3'' (PDict [])) (\<lambda>c2.
     bind_exn (py_get c2 ''attackVector'' (PStr [])) (\<lambda>vector_v.
     bind_exn (py_get dependency ''fileName'' (PStr [])) (\<lambda>component_v.
     bind_exn (py_get dependency ''version'' (PStr [])) (\<lambda>version_v.
     bind_exn (py_get dependency ''fileName'' (PStr [])) (\<lambda>pkg_v.
     bind_exn (py_get vuln ''references'' (PList [])) (\<lambda>refs_v.
     Inr [(''title'', title_v),
          (''description'', description_v),
          (''cve_id'', cve_v),
          (''severity'', PStr sev),
          (''cvss_score'', PFloat score),
          (''cvss_vector'', vector_v),
          (''affected_component'', component_v),
          (''affected_version'', version_v),
          (''exploit_available'', PBool False),
          (''patch_available'', PBool True),
          (''metadata'', PDict [(''package_name'', pkg_v),
                                (''references'', refs_v)])]))))))))))))))"

definition dependency_check_findings :: "runtime \<Rightarrow> pyval \<Rightarrow> exn + pydict list" where
  "dependency_check_findings rt output =
     bind_exn (py_get output ''dependencies'' (PList [])) (\<lambda>ds.
     bind_exn (py_iter ds) (\<lambda>dependencies.
     bind_exn (map_exn (\<lambda>dependency.
                 bind_exn (py_get dependency ''vulnerabilities'' (PList [])) (\<lambda>vs.
                 bind_exn (py_iter vs) (\<lambda>vulns.
                 map_exn (dependency_check_finding rt dependency) vulns))) dependencies) (\<lambda>fss.
     Inr (concat fss))))"

text \<open>
  The \<^verbatim>\<open>try\<close> block of \<^verbatim>\<open>run_dependency_check_scan\<close>: run the tool, read and parse the
  report file, remove it, extract the findings.
\<close>

definition dependency_check_body ::
  "settings \<Rightarrow> world \<Rightarrow> runtime \<Rightarrow> scan \<Rightarrow> exn + scan_results" where
  "dependency_check_body st w rt sc =
     bind_exn (subprocess_run w (dependency_check_cmd st sc)) (\<lambda>stdout.
     bind_exn (read_file w (report_path sc)) (\<lambda>text.
     bind_exn (json_loads w text) (\<lambda>output.
     bind_exn (case os_remove w (report_path sc) of Some e \<Rightarrow> Inl e | None \<Rightarrow> Inr ()) (\<lambda>u.
     bind_exn (dependency_check_findings rt output) (\<lambda>findings.
     Inr (success_results findings output))))))"

definition run_dependency_check_scan ::
  "settings \<Rightarrow> world \<Rightarrow> runtime \<Rightarrow> scan \<Rightarrow> scan_results" where
  "run_dependency_check_scan st w rt sc =
     (case dependency_check_body st w rt sc of
        Inr results \<Rightarrow> results
      | Inl (CalledProcessError msg stderr) \<Rightarrow>
          failed_results (''Dependency-Check scan failed: '' @ stderr)
      | Inl e \<Rightarrow> failed_results (''Error running Dependency-Check scan: '' @ str_exn e))"

section \<open>The scan task (scan\_tasks.py, run\_scan\_task)\<close>

text \<open>
  \<^verbatim>\<open>process_scan_findings\<close>: one vulnerability per finding, in order, for the asset of
  the scan; nothing is created when the scan is missing.
\<close>

definition process_scan_findings ::
  "database \<Rightarrow> nat \<Rightarrow> nat \<Rightarrow> pydict list \<Rightarrow> database" where
  "process_scan_findings db now scan_id findings =
     (case get_scan db scan_id of
        None \<Rightarrow> db
      | Some sc \<Rightarrow>
          fold (\<lambda>finding d.
                  fst (create_vulnerability_from_finding d now scan_id (asset_id sc) finding))
               findings db)"

text \<open>\<^verbatim>\<open>sum(1 for f in findings if f.get("severity") == sev)\<close>\<close>

definition count_severity :: "pydict list \<Rightarrow> string \<Rightarrow> nat" where
  "count_severity findings sev =
     length (filter (\<lambda>f. dict_get f ''severity'' PNone = PStr sev) findings)"

text \<open>
  The outer \<^verbatim>\<open>except\<close> block: the scan is marked failed; an exception of the
  notification inside it is caught and dropped.
\<close>

definition handle_task_exception ::
  "database \<Rightarrow> nat \<Rightarrow> nat \<Rightarrow> exn \<Rightarrow> database \<times> scan_results" where
  "handle_task_exception db now scan_id e =
     (fst (update_scan_status db now scan_id ''failed'' (Some (str_exn e))
             None None None None None),
      failed_results (str_exn e))"

text \<open>
  The part of the task after the adapter has returned: on success the findings are
  stored and the scan is marked completed with the five counts, computed from the
  findings list; otherwise it is marked failed. The notification that follows may
  raise, which leads to the handler.
\<close>

definition process_results ::
  "world \<Rightarrow> database \<Rightarrow> nat \<Rightarrow> scan \<Rightarrow> nat \<Rightarrow> scan_results \<Rightarrow>
   database \<times> scan_results" where
  "process_results w db now sc scan_id results =
     (if r_status results = ''success'' then
        (let db2 = process_scan_findings db now scan_id (r_findings results);
             msg = ''Scan completed successfully with ''
                     @ str_nat (length (r_findings results)) @ '' findings'';
             db3 = fst (update_scan_status db2 now scan_id ''completed'' (Some msg)
                     (Some (length (r_findings results)))
                     (Some (count_severity (r_findings results) ''critical''))
                     (Some (count_severity (r_findings results) ''high''))
                     (Some (count_severity (r_findings results) ''medium''))
                     (Some (count_severity (r_findings results) ''low'')))
         in case send_notification w ''Scan Completed''
                   (''Scan '' @ [CHR 0x27] @ name sc @ [CHR 0x27]
                      @ '' completed successfully with ''
                      @ str_nat (length (r_findings results)) @ '' findings'')
                   ''success'' of
              None \<Rightarrow> (db3, results)
            | Some e \<Rightarrow> handle_task_exception db3 now scan_id e)
      else
        (let db3 = fst (update_scan_status db now scan_id ''failed''
                          (Some (r_message results)) None None None None None)
         in case send_notification w ''Scan Failed''
                   (''Scan '' @ [CHR 0x27] @ name sc @ [CHR 0x27] @ '' failed: ''
                      @ r_message results)
                   ''error'' of
              None \<Rightarrow> (db3, results)
            | Some e \<Rightarrow> handle_task_exception db3 now scan_id e))"

text \<open>
  \<^verbatim>\<open>run_scan_task\<close>. The scan is set running (the commit also refreshes
  \<^verbatim>\<open>updated_at\<close>), then the adapter is chosen by an if/elif chain over three scanner
  types; every other type is marked failed as unsupported.
\<close>

definition run_scan_task ::
  "settings \<Rightarrow> world \<Rightarrow> runtime \<Rightarrow> database \<Rightarrow> nat \<Rightarrow> nat \<Rightarrow>
   database \<times> scan_results" where
  "run_scan_task st w rt db now scan_id =
     (case get_scan db scan_id of
        None \<Rightarrow>
          (db, failed_results (''Scan with ID '' @ str_nat scan_id @ '' not found''))
      | Some found \<Rightarrow>
          (let sc = found\<lparr>status := ''running'', started_at := Some now, updated_at := now\<rparr>;
               db1 = commit_scan db sc
           in if scanner_type sc = ''trivy'' then
                process_results w db1 now sc scan_id (run_trivy_scan st w rt sc)
              else if scanner_type sc = ''openvas'' then
                process_results w db1 now sc scan_id (run_openvas_scan sc)
              else if scanner_type sc = ''dependency-check'' then
                process_results w db1 now sc scan_id (run_dependency_check_scan st w rt sc)
              else
                (fst (update_scan_status db1 now scan_id ''failed''
                        (Some (''Unsupported scanner type: '' @ scanner_type sc))
                        None None None None None),
                 failed_results (''Unsupported scanner type: '' @ scanner_type sc))))"

text \<open>
  Example surroundings: the tools are on the path; the external tool succeeds and its
  report parses to the given value.
\<close>

definition example_settings :: settings where
  "example_settings = \<lparr> TRIVY_PATH = ''trivy'', DEPENDENCY_CHECK_PATH = ''dependency-check'' \<rparr>"

definition example_world :: "pyval \<Rightarrow> world" where
  "example_world output =
     \<lparr> subprocess_run = (\<lambda>cmd. Inr ''stdout''),
       json_loads = (\<lambda>s. Inr output),
       read_file = (\<lambda>path. Inr ''report''),
       os_remove = (\<lambda>path. None),
       send_notification = (\<lambda>t m k. None) \<rparr>"

text \<open>A world whose external tool exits with a non-zero status.\<close>

definition failing_world :: world where
  "failing_world =
     \<lparr> subprocess_run = (\<lambda>cmd. Inl (CalledProcessError ''non-zero exit status 1'' ''fatal'')),
       json_loads = (\<lambda>s. Inl (JSONDecodeError ''Expecting value'')),
       read_file = (\<lambda>path. Inl (OSError ''No such file or directory'')),
       os_remove = (\<lambda>path. None),
       send_notification = (\<lambda>t m k. None) \<rparr>"

text \<open>A world whose tool output does not parse, and one whose report file cannot be read.\<close>

definition malformed_world :: world where
  "malformed_world =
     (example_world PNone)\<lparr>json_loads := (\<lambda>s. Inl (JSONDecodeError ''Expecting value''))\<rparr>"

definition unreadable_world :: world where
  "unreadable_world =
     (example_world PNone)\<lparr>read_file := (\<lambda>path. Inl (OSError ''No such file or directory''))\<rparr>"

text \<open>A Dependency-Check report with one vulnerability of severity MODERATE.\<close>

definition moderate_report :: pyval where
  "moderate_report =
     PDict [(''dependencies'',
        PList [PDict [(''fileName'', PStr ''lib.jar''),
                      (''vulnerabilities'',
                         PList [PDict [(''name'', PStr ''CVE-2024-0001''),
                                       (''severity'', PStr ''MODERATE'')]])]])]"

section \<open>Theorems\<close>

text \<open>
  C9. \<^verbatim>\<open>get_priority_class\<close> returns "critical" exactly when the score is at least 0.8,
  "high" exactly when it is in [0.6, 0.8), "medium" exactly when it is in [0.4, 0.6), and
  "low" exactly in the remaining case (below 0.4); the thresholds 0.8, 0.6 and 0.4
  themselves map to critical, high and medium.
\<close>

theorem get_priority_class_thresholds:
  "(get_priority_class s = ''critical'') = (0.8 \<le> s)
   \<and> (get_priority_class s = ''high'') = (0.6 \<le> s \<and> s < 0.8)
   \<and> (get_priority_class s = ''medium'') = (0.4 \<le> s \<and> s < 0.6)
   \<and> (get_priority_class s = ''low'') = (s < 0.4)
   \<and> get_priority_class 0.8 = ''critical''
   \<and> get_priority_class 0.6 = ''high''
   \<and> get_priority_class 0.4 = ''medium''"
  by (auto simp: get_priority_class_def)


subsection \<open>Lookups after a commit\<close>

lemma find_map_replace:
  "find (\<lambda>x. id_scan x = k) xs = Some y \<Longrightarrow> id_scan s = k \<Longrightarrow>
   find (\<lambda>x. id_scan x = k) (map (\<lambda>x. if id_scan x = k then s else x) xs) = Some s"
  by (induction xs) (auto split: if_splits)

lemma get_scan_commit_scan:
  "get_scan db k = Some y \<Longrightarrow> id_scan s = k \<Longrightarrow> get_scan (commit_scan db s) k = Some s"
  by (simp add: get_scan_def commit_scan_def find_map_replace)

lemma get_scan_id: "get_scan db k = Some y \<Longrightarrow> id_scan y = k"
  by (auto simp: get_scan_def find_Some_iff)

subsection \<open>Scan lifecycle requests\<close>

text \<open>
  C1, evaluated on the code. A start request against a scan that is already running is
  not rejected: the endpoint answers with the scan, overwrites its start time (10 becomes
  25) and queues a second run of the scan task.
\<close>

theorem start_running_scan_not_rejected:
  "start_scan_endpoint (example_db ''trivy'' ''running'') 25 [] 1 =
     (\<lparr> scans = [(example_scan ''trivy'' ''running'')\<lparr>started_at := Some 25, updated_at := 25\<rparr>],
        vulnerabilities = [], ml_models = [] \<rparr>,
      [1],
      Inr (Some ((example_scan ''trivy'' ''running'')\<lparr>started_at := Some 25, updated_at := 25\<rparr>)))"
  by (simp add: start_scan_endpoint_def start_scan_def get_scan_def commit_scan_def
      example_db_def example_scan_def Let_def)

text \<open>
  C3. For an existing scan, a stop request succeeds exactly when the status is running,
  and then the stored status is stopped; in every other status the request is answered
  with the 400 error "Scan is not running" and the database is returned unchanged.
\<close>

theorem stop_scan_endpoint_only_from_running:
  assumes "get_scan db scan_id = Some s"
  shows "(status s = ''running'' \<longrightarrow>
            (\<exists>db' s'. stop_scan_endpoint db now scan_id = (db', Inr (Some s'))
               \<and> status s' = ''stopped'' \<and> get_scan db' scan_id = Some s'))
         \<and> (status s \<noteq> ''running'' \<longrightarrow>
            stop_scan_endpoint db now scan_id =
              (db, Inl (HTTPException 400 ''Scan is not running'')))"
proof -
  have "id_scan s = scan_id"
    using assms by (rule get_scan_id)
  then have "get_scan (commit_scan db (s\<lparr>status := ''stopped'', updated_at := now\<rparr>)) scan_id
      = Some (s\<lparr>status := ''stopped'', updated_at := now\<rparr>)"
    using assms by (simp add: get_scan_commit_scan)
  then show ?thesis
    using assms by (simp add: stop_scan_endpoint_def stop_scan_def Let_def)
qed

theorem stop_scan_endpoint_only_from_running_witness:
  "(\<exists>db' s'. stop_scan_endpoint (example_db ''trivy'' ''running'') 30 1 = (db', Inr (Some s'))
      \<and> status s' = ''stopped'' \<and> get_scan db' 1 = Some s')
   \<and> stop_scan_endpoint (example_db ''trivy'' ''completed'') 30 1 =
       (example_db ''trivy'' ''completed'', Inl (HTTPException 400 ''Scan is not running''))"
proof -
  have r: "get_scan (example_db ''trivy'' ''running'') 1 = Some (example_scan ''trivy'' ''running'')"
    by (simp add: get_scan_def example_db_def example_scan_def)
  have c: "get_scan (example_db ''trivy'' ''completed'') 1 = Some (example_scan ''trivy'' ''completed'')"
    by (simp add: get_scan_def example_db_def example_scan_def)
  have sr: "status (example_scan ''trivy'' ''running'') = ''running''"
    by (simp add: example_scan_def)
  have sc: "status (example_scan ''trivy'' ''completed'') \<noteq> ''running''"
    by (simp add: example_scan_def)
  show ?thesis
    using stop_scan_endpoint_only_from_running [OF r, of 30]
          stop_scan_endpoint_only_from_running [OF c, of 30] sr sc
    by simp
qed

subsection \<open>Finding normalisation\<close>

lemma dict_get_absent: "k \<notin> fst ` set d \<Longrightarrow> dict_get d k dflt = dflt"
  by (induction d) auto

lemma dict_get_present: "map_of d k = Some v \<Longrightarrow> dict_get d k dflt = v"
  by (induction d) (auto split: if_splits)

text \<open>
  C8. The vulnerability built from a finding takes "Unknown" as title, the empty string
  as description, "low" as severity, 0.0 as CVSS score and false for exploit\_available
  and patch\_available when the key is absent from the finding, and the finding's own
  value, unchanged, when the key is present.
\<close>

theorem create_vulnerability_from_finding_defaults:
  assumes "create_vulnerability_from_finding db now scan_id aid finding = (db', v)"
  shows "(''title'' \<notin> fst ` set finding \<longrightarrow> title v = PStr ''Unknown'')
   \<and> (''description'' \<notin> fst ` set finding \<longrightarrow> description v = PStr [])
   \<and> (''severity'' \<notin> fst ` set finding \<longrightarrow> severity v = PStr ''low'')
   \<and> (''cvss_score'' \<notin> fst ` set finding \<longrightarrow> cvss_score v = PFloat 0)
   \<and> (''exploit_available'' \<notin> fst ` set finding \<longrightarrow> exploit_available v = PBool False)
   \<and> (''patch_available'' \<notin> fst ` set finding \<longrightarrow> patch_available v = PBool False)
   \<and> (\<forall>x. map_of finding ''title'' = Some x \<longrightarrow> title v = x)
   \<and> (\<forall>x. map_of finding ''description'' = Some x \<longrightarrow> description v = x)
   \<and> (\<forall>x. map_of finding ''severity'' = Some x \<longrightarrow> severity v = x)
   \<and> (\<forall>x. map_of finding ''cvss_score'' = Some x \<longrightarrow> cvss_score v = x)
   \<and> (\<forall>x. map_of finding ''exploit_available'' = Some x \<longrightarrow> exploit_available v = x)
   \<and> (\<forall>x. map_of finding ''patch_available'' = Some x \<longrightarrow> patch_available v = x)"
proof -
  have v: "v = vulnerability_from_finding now scan_id aid finding"
    using assms by (simp add: create_vulnerability_from_finding_def Let_def)
  show ?thesis
    unfolding v vulnerability_from_finding_def
    by (simp add: dict_get_absent dict_get_present)
qed

theorem create_vulnerability_from_finding_defaults_witness:
  "\<exists>db' v. create_vulnerability_from_finding (example_db ''trivy'' ''running'') 40 1 (Some 7)
       [(''title'', PStr ''CVE-2024-0001''), (''severity'', PStr ''critical''),
        (''cvss_score'', PFloat 9.8), (''exploit_available'', PBool True)] = (db', v)
     \<and> title v = PStr ''CVE-2024-0001'' \<and> description v = PStr []
     \<and> severity v = PStr ''critical'' \<and> cvss_score v = PFloat 9.8
     \<and> exploit_available v = PBool True \<and> patch_available v = PBool False"
proof -
  obtain db' v where h: "create_vulnerability_from_finding (example_db ''trivy'' ''running'') 40 1 (Some 7)
       [(''title'', PStr ''CVE-2024-0001''), (''severity'', PStr ''critical''),
        (''cvss_score'', PFloat 9.8), (''exploit_available'', PBool True)] = (db', v)"
    by (cases "create_vulnerability_from_finding (example_db ''trivy'' ''running'') 40 1 (Some 7)
       [(''title'', PStr ''CVE-2024-0001''), (''severity'', PStr ''critical''),
        (''cvss_score'', PFloat 9.8), (''exploit_available'', PBool True)]") blast
  show ?thesis
    using create_vulnerability_from_finding_defaults [OF h] h by simp
qed


subsection \<open>Feature extraction\<close>

lemma bind_exn_Inr_iff:
  "(bind_exn m f = Inr y) = (\<exists>x. m = Inr x \<and> f x = Inr y)"
  by (cases m) auto

lemma dict_get_map_of:
  "dict_get d k dflt = (case map_of d k of None \<Rightarrow> dflt | Some v \<Rightarrow> v)"
  by (induction d) auto

lemma py_lower_Inr: "py_lower v = Inr s \<Longrightarrow> \<exists>t. v = PStr t"
  by (cases v) auto

lemma flag_returns:
  assumes "\<forall>v. map_of vd k = Some v \<longrightarrow> (\<exists>i. py_int rt v = Inr i)"
  shows "py_int rt (dict_get vd k (PBool False)) = Inr (field_flag rt vd k)"
  using assms by (cases "map_of vd k") (auto simp: dict_get_map_of field_flag_def)

lemma text_returns:
  assumes "\<forall>v. map_of vd k = Some v \<longrightarrow> (\<exists>s. v = PStr s)" and "map lower_char d = d"
  shows "py_lower (dict_get vd k (PStr d)) = Inr (field_text vd k d)"
  using assms by (cases "map_of vd k") (auto simp: dict_get_map_of field_text_def)

lemma flag_returned:
  assumes "py_int rt (dict_get vd k (PBool False)) = Inr i"
  shows "\<forall>v. map_of vd k = Some v \<longrightarrow> (\<exists>i. py_int rt v = Inr i)"
  using assms by (auto simp: dict_get_map_of)

lemma text_returned:
  assumes "py_lower (dict_get vd k (PStr d)) = Inr s"
  shows "\<forall>v. map_of vd k = Some v \<longrightarrow> (\<exists>t. v = PStr t)"
  using assms by (auto simp: dict_get_map_of dest: py_lower_Inr)

lemma lower_defaults: "map lower_char ''low'' = ''low''" "map lower_char [] = []"
  by (simp_all add: lower_char_def)

lemma features_well_typed:
  assumes f: "\<forall>k \<in> {''exploit_available'', ''patch_available''}.
               \<forall>v. map_of vd k = Some v \<longrightarrow> (\<exists>i. py_int rt v = Inr i)"
    and c: "\<forall>k \<in> {''severity'', ''exploit_maturity'', ''business_impact'',
                   ''data_classification'', ''system_exposure''}.
               \<forall>v. map_of vd k = Some v \<longrightarrow> (\<exists>s. v = PStr s)"
  shows "get_vulnerability_features rt vd = Inr (expected_features rt vd)"
proof -
  have ea: "py_int rt (dict_get vd ''exploit_available'' (PBool False))
              = Inr (field_flag rt vd ''exploit_available'')"
    using f by (intro flag_returns) simp
  have pa: "py_int rt (dict_get vd ''patch_available'' (PBool False))
              = Inr (field_flag rt vd ''patch_available'')"
    using f by (intro flag_returns) simp
  have sev: "py_lower (dict_get vd ''severity'' (PStr ''low''))
              = Inr (field_text vd ''severity'' ''low'')"
    using c by (intro text_returns lower_defaults) simp
  have em: "py_lower (dict_get vd ''exploit_maturity'' (PStr []))
              = Inr (field_text vd ''exploit_maturity'' [])"
    using c by (intro text_returns lower_defaults) simp
  have bi: "py_lower (dict_get vd ''business_impact'' (PStr []))
              = Inr (field_text vd ''business_impact'' [])"
    using c by (intro text_returns lower_defaults) simp
  have dc: "py_lower (dict_get vd ''data_classification'' (PStr []))
              = Inr (field_text vd ''data_classification'' [])"
    using c by (intro text_returns lower_defaults) simp
  have se: "py_lower (dict_get vd ''system_exposure'' (PStr []))
              = Inr (field_text vd ''system_exposure'' [])"
    using c by (intro text_returns lower_defaults) simp
  show ?thesis
    unfolding get_vulnerability_features_def ea pa sev em bi dc se
    by (simp add: Let_def expected_features_def one_hot_def int_eq_def dict_get_map_of)
qed

lemma features_returned:
  assumes "get_vulnerability_features rt vd = Inr fs"
  shows "(\<forall>k \<in> {''exploit_available'', ''patch_available''}.
               \<forall>v. map_of vd k = Some v \<longrightarrow> (\<exists>i. py_int rt v = Inr i))
       \<and> (\<forall>k \<in> {''severity'', ''exploit_maturity'', ''business_impact'',
                   ''data_classification'', ''system_exposure''}.
               \<forall>v. map_of vd k = Some v \<longrightarrow> (\<exists>s. v = PStr s))"
proof -
  obtain ea pa sev em bi dc se where
    "py_int rt (dict_get vd ''exploit_available'' (PBool False)) = Inr ea"
    "py_int rt (dict_get vd ''patch_available'' (PBool False)) = Inr pa"
    "py_lower (dict_get vd ''severity'' (PStr ''low'')) = Inr sev"
    "py_lower (dict_get vd ''exploit_maturity'' (PStr [])) = Inr em"
    "py_lower (dict_get vd ''business_impact'' (PStr [])) = Inr bi"
    "py_lower (dict_get vd ''data_classification'' (PStr [])) = Inr dc"
    "py_lower (dict_get vd ''system_exposure'' (PStr [])) = Inr se"
    using assms
    by (auto simp: get_vulnerability_features_def bind_exn_Inr_iff Let_def)
  then show ?thesis
    using flag_returned text_returned by simp
qed

lemma expected_features_keys:
  "map fst (expected_features rt vd) = feature_names"
  by (simp add: expected_features_def one_hot_def feature_names_def)

text \<open>
  C10, as stated, evaluated on the code. With every field absent the extractor does not
  give 0 for all indicators: the absent severity defaults to "low", so
  \<open>severity_low\<close> is 1. And a dictionary whose severity is \<^verbatim>\<open>None\<close> gets no feature
  keys at all: lower-casing it raises.
\<close>

theorem get_vulnerability_features_counterexample:
  "get_vulnerability_features example_runtime [] =
     Inr [(''cvss_score'', PFloat 0), (''exploit_available'', PInt 0),
          (''patch_available'', PInt 0),
          (''severity_critical'', PInt 0), (''severity_high'', PInt 0),
          (''severity_medium'', PInt 0), (''severity_low'', PInt 1),
          (''exploit_maturity_high'', PInt 0), (''exploit_maturity_functional'', PInt 0),
          (''exploit_maturity_poc'', PInt 0), (''exploit_maturity_unproven'', PInt 0),
          (''business_impact_critical'', PInt 0), (''business_impact_high'', PInt 0),
          (''business_impact_medium'', PInt 0), (''business_impact_low'', PInt 0),
          (''data_classification_restricted'', PInt 0),
          (''data_classification_confidential'', PInt 0),
          (''data_classification_internal'', PInt 0),
          (''data_classification_public'', PInt 0),
          (''system_exposure_internet'', PInt 0), (''system_exposure_intranet'', PInt 0),
          (''system_exposure_internal'', PInt 0), (''system_exposure_isolated'', PInt 0)]
   \<and> get_vulnerability_features example_runtime [(''severity'', PNone)] =
     Inl (AttributeError
       ([CHR 0x27] @ ''NoneType'' @ [CHR 0x27] @ '' object has no attribute ''
          @ [CHR 0x27] @ ''lower'' @ [CHR 0x27]))"
  by (simp add: get_vulnerability_features_def Let_def int_eq_def lower_char_def)

text \<open>
  C10, amended. For an input in which every categorical field that is present (severity,
  exploit maturity, business impact, data classification, system exposure) holds a
  string, and every flag that is present (exploit\_available, patch\_available) holds a
  value that \<^verbatim>\<open>int\<close> converts, the extractor returns the expected feature dictionary,
  whichever keys are present; for every other input it raises. The expected dictionary
  has the 23 feature names as its keys, in their fixed order. An absent flag counts 0,
  an absent CVSS score 0.0, an absent categorical field leaves all its indicators 0,
  except that an absent severity counts as "low", so \<open>severity_low\<close> is 1; a present
  field contributes its own value.
\<close>

theorem get_vulnerability_features_fixed_keys:
  "((\<forall>k \<in> {''exploit_available'', ''patch_available''}.
        \<forall>v. map_of vd k = Some v \<longrightarrow> (\<exists>i. py_int rt v = Inr i))
     \<and> (\<forall>k \<in> {''severity'', ''exploit_maturity'', ''business_impact'',
               ''data_classification'', ''system_exposure''}.
        \<forall>v. map_of vd k = Some v \<longrightarrow> (\<exists>s. v = PStr s))
     \<longrightarrow> get_vulnerability_features rt vd = Inr (expected_features rt vd))
   \<and> (\<not> ((\<forall>k \<in> {''exploit_available'', ''patch_available''}.
        \<forall>v. map_of vd k = Some v \<longrightarrow> (\<exists>i. py_int rt v = Inr i))
     \<and> (\<forall>k \<in> {''severity'', ''exploit_maturity'', ''business_impact'',
               ''data_classification'', ''system_exposure''}.
        \<forall>v. map_of vd k = Some v \<longrightarrow> (\<exists>s. v = PStr s)))
     \<longrightarrow> (\<exists>e. get_vulnerability_features rt vd = Inl e))
   \<and> map fst (expected_features rt vd) = feature_names
   \<and> length (expected_features rt vd) = 23
   \<and> distinct feature_names
   \<and> (\<forall>k. k \<notin> fst ` set vd \<longrightarrow> field_flag rt vd k = 0 \<and> (\<forall>d. field_text vd k d = d))
   \<and> (\<forall>k v i. map_of vd k = Some v \<and> py_int rt v = Inr i \<longrightarrow> field_flag rt vd k = i)
   \<and> (\<forall>k s d. map_of vd k = Some (PStr s) \<longrightarrow> field_text vd k d = map lower_char s)
   \<and> (''cvss_score'' \<notin> fst ` set vd \<longrightarrow>
        map_of (expected_features rt vd) ''cvss_score'' = Some (PFloat 0))
   \<and> (\<forall>v. map_of vd ''cvss_score'' = Some v \<longrightarrow>
        map_of (expected_features rt vd) ''cvss_score'' = Some v)
   \<and> one_hot ''severity'' [''critical'', ''high'', ''medium'', ''low''] ''low''
        = [(''severity_critical'', PInt 0), (''severity_high'', PInt 0),
           (''severity_medium'', PInt 0), (''severity_low'', PInt 1)]
   \<and> one_hot ''exploit_maturity'' [''high'', ''functional'', ''poc'', ''unproven''] []
        = [(''exploit_maturity_high'', PInt 0), (''exploit_maturity_functional'', PInt 0),
           (''exploit_maturity_poc'', PInt 0), (''exploit_maturity_unproven'', PInt 0)]
   \<and> one_hot ''business_impact'' [''critical'', ''high'', ''medium'', ''low''] []
        = [(''business_impact_critical'', PInt 0), (''business_impact_high'', PInt 0),
           (''business_impact_medium'', PInt 0), (''business_impact_low'', PInt 0)]
   \<and> one_hot ''data_classification'' [''restricted'', ''confidential'', ''internal'', ''public''] []
        = [(''data_classification_restricted'', PInt 0),
           (''data_classification_confidential'', PInt 0),
           (''data_classification_internal'', PInt 0),
           (''data_classification_public'', PInt 0)]
   \<and> one_hot ''system_exposure'' [''internet'', ''intranet'', ''internal'', ''isolated''] []
        = [(''system_exposure_internet'', PInt 0), (''system_exposure_intranet'', PInt 0),
           (''system_exposure_internal'', PInt 0), (''system_exposure_isolated'', PInt 0)]"
proof -
  let ?wt = "(\<forall>k \<in> {''exploit_available'', ''patch_available''}.
        \<forall>v. map_of vd k = Some v \<longrightarrow> (\<exists>i. py_int rt v = Inr i))
     \<and> (\<forall>k \<in> {''severity'', ''exploit_maturity'', ''business_impact'',
               ''data_classification'', ''system_exposure''}.
        \<forall>v. map_of vd k = Some v \<longrightarrow> (\<exists>s. v = PStr s))"
  have a: "?wt \<longrightarrow> get_vulnerability_features rt vd = Inr (expected_features rt vd)"
    using features_well_typed [of vd rt] by blast
  have b: "\<not> ?wt \<longrightarrow> (\<exists>e. get_vulnerability_features rt vd = Inl e)"
  proof
    assume n: "\<not> ?wt"
    show "\<exists>e. get_vulnerability_features rt vd = Inl e"
    proof (cases "get_vulnerability_features rt vd")
      case (Inl e)
      then show ?thesis by blast
    next
      case (Inr fs)
      then have "?wt" by (rule features_returned)
      then show ?thesis using n by blast
    qed
  qed
  have k: "map fst (expected_features rt vd) = feature_names"
    by (rule expected_features_keys)
  have l: "length (expected_features rt vd) = 23"
    by (simp add: expected_features_def one_hot_def)
  have d: "distinct feature_names"
    by (simp add: feature_names_def)
  have ab: "\<forall>k. k \<notin> fst ` set vd \<longrightarrow> field_flag rt vd k = 0 \<and> (\<forall>d. field_text vd k d = d)"
    by (auto simp: field_flag_def field_text_def map_of_eq_None_iff [symmetric]
        simp del: map_of_eq_None_iff)
  have fl: "\<forall>k v i. map_of vd k = Some v \<and> py_int rt v = Inr i \<longrightarrow> field_flag rt vd k = i"
    by (simp add: field_flag_def)
  have tx: "\<forall>k s d. map_of vd k = Some (PStr s) \<longrightarrow> field_text vd k d = map lower_char s"
    by (simp add: field_text_def)
  have c0: "''cvss_score'' \<notin> fst ` set vd \<longrightarrow>
        map_of (expected_features rt vd) ''cvss_score'' = Some (PFloat 0)"
    by (auto simp: expected_features_def map_of_eq_None_iff [symmetric]
        simp del: map_of_eq_None_iff)
  have c1: "\<forall>v. map_of vd ''cvss_score'' = Some v \<longrightarrow>
        map_of (expected_features rt vd) ''cvss_score'' = Some v"
    by (simp add: expected_features_def)
  have o1: "one_hot ''severity'' [''critical'', ''high'', ''medium'', ''low''] ''low''
        = [(''severity_critical'', PInt 0), (''severity_high'', PInt 0),
           (''severity_medium'', PInt 0), (''severity_low'', PInt 1)]"
    by (simp add: one_hot_def)
  have o2: "one_hot ''exploit_maturity'' [''high'', ''functional'', ''poc'', ''unproven''] []
        = [(''exploit_maturity_high'', PInt 0), (''exploit_maturity_functional'', PInt 0),
           (''exploit_maturity_poc'', PInt 0), (''exploit_maturity_unproven'', PInt 0)]"
    by (simp add: one_hot_def)
  have o3: "one_hot ''business_impact'' [''critical'', ''high'', ''medium'', ''low''] []
        = [(''business_impact_critical'', PInt 0), (''business_impact_high'', PInt 0),
           (''business_impact_medium'', PInt 0), (''business_impact_low'', PInt 0)]"
    by (simp add: one_hot_def)
  have o4: "one_hot ''data_classification'' [''restricted'', ''confidential'', ''internal'', ''public''] []
        = [(''data_classification_restricted'', PInt 0),
           (''data_classification_confidential'', PInt 0),
           (''data_classification_internal'', PInt 0),
           (''data_classification_public'', PInt 0)]"
    by (simp add: one_hot_def)
  have o5: "one_hot ''system_exposure'' [''internet'', ''intranet'', ''internal'', ''isolated''] []
        = [(''system_exposure_internet'', PInt 0), (''system_exposure_intranet'', PInt 0),
           (''system_exposure_internal'', PInt 0), (''system_exposure_isolated'', PInt 0)]"
    by (simp add: one_hot_def)
  show ?thesis
    using a b k l d ab fl tx c0 c1 o1 o2 o3 o4 o5 by (intro conjI)
qed

theorem get_vulnerability_features_fixed_keys_witness:
  "get_vulnerability_features example_runtime
      [(''severity'', PStr ''HIGH''), (''cvss_score'', PFloat 7.5),
       (''exploit_available'', PBool True)]
     = Inr [(''cvss_score'', PFloat 7.5), (''exploit_available'', PInt 1),
          (''patch_available'', PInt 0),
          (''severity_critical'', PInt 0), (''severity_high'', PInt 1),
          (''severity_medium'', PInt 0), (''severity_low'', PInt 0),
          (''exploit_maturity_high'', PInt 0), (''exploit_maturity_functional'', PInt 0),
          (''exploit_maturity_poc'', PInt 0), (''exploit_maturity_unproven'', PInt 0),
          (''business_impact_critical'', PInt 0), (''business_impact_high'', PInt 0),
          (''business_impact_medium'', PInt 0), (''business_impact_low'', PInt 0),
          (''data_classification_restricted'', PInt 0),
          (''data_classification_confidential'', PInt 0),
          (''data_classification_internal'', PInt 0),
          (''data_classification_public'', PInt 0),
          (''system_exposure_internet'', PInt 0), (''system_exposure_intranet'', PInt 0),
          (''system_exposure_internal'', PInt 0), (''system_exposure_isolated'', PInt 0)]
   \<and> (\<exists>e. get_vulnerability_features example_runtime [(''business_impact'', PInt 3)] = Inl e)
   \<and> field_flag example_runtime [(''severity'', PStr ''HIGH'')] ''patch_available'' = 0
   \<and> field_text [(''severity'', PStr ''HIGH'')] ''severity'' ''low'' = ''high''"
proof -
  let ?vd = "[(''severity'', PStr ''HIGH''), (''cvss_score'', PFloat 7.5),
       (''exploit_available'', PBool True)]"
  note t = get_vulnerability_features_fixed_keys [of ?vd example_runtime]
  have wt: "(\<forall>k \<in> {''exploit_available'', ''patch_available''}.
        \<forall>v. map_of ?vd k = Some v \<longrightarrow> (\<exists>i. py_int example_runtime v = Inr i))
     \<and> (\<forall>k \<in> {''severity'', ''exploit_maturity'', ''business_impact'',
               ''data_classification'', ''system_exposure''}.
        \<forall>v. map_of ?vd k = Some v \<longrightarrow> (\<exists>s. v = PStr s))"
    by simp
  have r: "get_vulnerability_features example_runtime ?vd
             = Inr (expected_features example_runtime ?vd)"
    using t wt by blast
  have v: "expected_features example_runtime ?vd
     = [(''cvss_score'', PFloat 7.5), (''exploit_available'', PInt 1),
          (''patch_available'', PInt 0),
          (''severity_critical'', PInt 0), (''severity_high'', PInt 1),
          (''severity_medium'', PInt 0), (''severity_low'', PInt 0),
          (''exploit_maturity_high'', PInt 0), (''exploit_maturity_functional'', PInt 0),
          (''exploit_maturity_poc'', PInt 0), (''exploit_maturity_unproven'', PInt 0),
          (''business_impact_critical'', PInt 0), (''business_impact_high'', PInt 0),
          (''business_impact_medium'', PInt 0), (''business_impact_low'', PInt 0),
          (''data_classification_restricted'', PInt 0),
          (''data_classification_confidential'', PInt 0),
          (''data_classification_internal'', PInt 0),
          (''data_classification_public'', PInt 0),
          (''system_exposure_internet'', PInt 0), (''system_exposure_intranet'', PInt 0),
          (''system_exposure_internal'', PInt 0), (''system_exposure_isolated'', PInt 0)]"
    by (simp add: expected_features_def one_hot_def field_flag_def field_text_def
        lower_char_def)
  have nwt: "\<not> ((\<forall>k \<in> {''exploit_available'', ''patch_available''}.
        \<forall>v. map_of [(''business_impact'', PInt 3)] k = Some v
            \<longrightarrow> (\<exists>i. py_int example_runtime v = Inr i))
     \<and> (\<forall>k \<in> {''severity'', ''exploit_maturity'', ''business_impact'',
               ''data_classification'', ''system_exposure''}.
        \<forall>v. map_of [(''business_impact'', PInt 3)] k = Some v \<longrightarrow> (\<exists>s. v = PStr s)))"
    by simp
  have e: "\<exists>e. get_vulnerability_features example_runtime [(''business_impact'', PInt 3)] = Inl e"
    using get_vulnerability_features_fixed_keys
            [of "[(''business_impact'', PInt 3)]" example_runtime] nwt
    by blast
  note t2 = get_vulnerability_features_fixed_keys [of "[(''severity'', PStr ''HIGH'')]" example_runtime]
  have ab: "''patch_available'' \<notin> fst ` set [(''severity'', PStr ''HIGH'')]" by simp
  have f0: "field_flag example_runtime [(''severity'', PStr ''HIGH'')] ''patch_available'' = 0"
    using t2 ab by blast
  have pr: "map_of [(''severity'', PStr ''HIGH'')] ''severity'' = Some (PStr ''HIGH'')" by simp
  have "field_text [(''severity'', PStr ''HIGH'')] ''severity'' ''low'' = map lower_char ''HIGH''"
    using t2 pr by blast
  then have tx: "field_text [(''severity'', PStr ''HIGH'')] ''severity'' ''low'' = ''high''"
    by (simp add: lower_char_def)
  show ?thesis using r v e f0 tx by simp
qed

subsection \<open>Model selection and training\<close>






lemma find_map_replace_model:
  "find (\<lambda>m. int (id_model m) = k) xs = Some y \<Longrightarrow> int (id_model s) = k \<Longrightarrow>
   find (\<lambda>m. int (id_model m) = k) (map (\<lambda>x. if id_model x = id_model s then s else x) xs) = Some s"
  by (induction xs) (auto split: if_splits)

lemma get_model_commit_model:
  "get_model db k = Some y \<Longrightarrow> int (id_model s) = k \<Longrightarrow> get_model (commit_model db s) k = Some s"
  by (simp add: get_model_def commit_model_def find_map_replace_model)

lemma get_model_id: "get_model db k = Some y \<Longrightarrow> int (id_model y) = k"
  by (auto simp: get_model_def find_Some_iff)


text \<open>
  C6. When the fit of a training run raises, for a model that exists, the run returns
  no model, the stored row has status error, and its payload is the one it had before
  the run.
\<close>

theorem train_model_failure_keeps_payload:
  assumes "get_model db model_id = Some m"
    and "fit (hyperparameters m) params = Inl e"
  shows "\<exists>db' m'. train_model fit db now model_id params = (db', None)
           \<and> get_model db' model_id = Some m'
           \<and> m_status m' = ''error'' \<and> model_data m' = model_data m"
proof -
  let ?m1 = "m\<lparr>m_status := ''training'', m_updated_at := now\<rparr>"
  let ?m3 = "?m1\<lparr>m_status := ''error'', m_updated_at := now\<rparr>"
  have k: "int (id_model m) = model_id"
    using assms(1) by (rule get_model_id)
  have g1: "get_model (commit_model db ?m1) model_id = Some ?m1"
    using assms(1) k by (simp add: get_model_commit_model)
  have g3: "get_model (commit_model (commit_model db ?m1) ?m3) model_id = Some ?m3"
    using g1 k by (simp add: get_model_commit_model)
  have "train_model fit db now model_id params = (commit_model (commit_model db ?m1) ?m3, None)"
    using assms by (simp add: train_model_def Let_def)
  then show ?thesis using g3 by simp
qed


theorem train_model_failure_keeps_payload_witness:
  "\<exists>db' m'. train_model (\<lambda>h p. Inl (ValueError ''fit failed'')) example_models 50 1 [] = (db', None)
           \<and> get_model db' 1 = Some m'
           \<and> m_status m' = ''error'' \<and> model_data m' = Some ''pickle-1''"
proof -
  have g: "get_model example_models 1 = Some (example_model 1 ''trained'' (Some ''pickle-1'') 5)"
    by (simp add: get_model_def example_models_def example_model_def)
  have f: "(\<lambda>h p. Inl (ValueError ''fit failed''))
             (hyperparameters (example_model 1 ''trained'' (Some ''pickle-1'') 5)) ([]::pydict)
           = (Inl (ValueError ''fit failed'') :: exn + fit_output)"
    by simp
  show ?thesis
    using train_model_failure_keeps_payload [OF g f, of 50]
    by (simp add: example_model_def)
qed
















subsection \<open>Dispatch and scanner adapters\<close>


text \<open>
  C4, evaluated on the code. A scan whose scanner kind is "custom", one of the four kinds
  the scan schema accepts, is not dispatched to any adapter: whatever the surroundings,
  the task marks it failed with the message "Unsupported scanner type: custom".
\<close>

theorem run_scan_task_custom_unsupported:
  "run_scan_task st w rt (example_db ''custom'' ''pending'') 20 1 =
     (\<lparr> scans = [(example_scan ''custom'' ''pending'')
                    \<lparr>status := ''failed'', started_at := Some 20, updated_at := 20\<rparr>],
        vulnerabilities = [], ml_models = [] \<rparr>,
      failed_results ''Unsupported scanner type: custom'')"
  by (simp add: run_scan_task_def update_scan_status_def get_scan_def commit_scan_def
      example_db_def example_scan_def Let_def)

lemma failed_results_simps:
  "r_status (failed_results m) = ''failed''"
  "r_findings (failed_results m) = []"
  "r_message (failed_results m) = m"
  by (simp_all add: failed_results_def)

lemma success_results_simps:
  "r_status (success_results fs out) = ''success''"
  "r_findings (success_results fs out) = fs"
  by (simp_all add: success_results_def)

lemma run_trivy_scan_raised:
  "trivy_body st w rt sc = Inl e \<Longrightarrow>
   run_trivy_scan st w rt sc =
     failed_results (case e of CalledProcessError m stderr \<Rightarrow> ''Trivy scan failed: '' @ stderr
                     | _ \<Rightarrow> ''Error running Trivy scan: '' @ str_exn e)"
  by (cases e) (simp_all add: run_trivy_scan_def)

lemma run_dependency_check_scan_raised:
  "dependency_check_body st w rt sc = Inl e \<Longrightarrow>
   run_dependency_check_scan st w rt sc =
     failed_results (case e of CalledProcessError m stderr \<Rightarrow>
                         ''Dependency-Check scan failed: '' @ stderr
                     | _ \<Rightarrow> ''Error running Dependency-Check scan: '' @ str_exn e)"
  by (cases e) (simp_all add: run_dependency_check_scan_def)

lemma trivy_body_success:
  "trivy_body st w rt sc = Inr r \<Longrightarrow> r_status r = ''success''"
  by (auto simp: trivy_body_def bind_exn_Inr_iff success_results_simps)

lemma dependency_check_body_success:
  "dependency_check_body st w rt sc = Inr r \<Longrightarrow> r_status r = ''success''"
  by (auto simp: dependency_check_body_def bind_exn_Inr_iff success_results_simps)

text \<open>
  C7. Whenever the guarded block of the Trivy or the Dependency-Check adapter raises, the
  adapter returns a result with status failed, no findings and a message. The block
  raises when the external process fails (a non-zero exit is reported with the captured
  standard error), when its output is not valid JSON, and, for Dependency-Check, when the
  report file cannot be read.
\<close>

theorem adapters_capture_failures:
  "(\<forall>e. trivy_body st w rt sc = Inl e \<longrightarrow>
       r_status (run_trivy_scan st w rt sc) = ''failed''
       \<and> r_findings (run_trivy_scan st w rt sc) = []
       \<and> r_message (run_trivy_scan st w rt sc) \<noteq> [])
   \<and> (\<forall>e. subprocess_run w (trivy_cmd st sc) = Inl e \<longrightarrow> trivy_body st w rt sc = Inl e)
   \<and> (\<forall>out e. subprocess_run w (trivy_cmd st sc) = Inr out \<and> json_loads w out = Inl e \<longrightarrow>
         trivy_body st w rt sc = Inl e)
   \<and> (\<forall>m stderr. subprocess_run w (trivy_cmd st sc) = Inl (CalledProcessError m stderr) \<longrightarrow>
         run_trivy_scan st w rt sc = failed_results (''Trivy scan failed: '' @ stderr))
   \<and> (\<forall>e. dependency_check_body st w rt sc = Inl e \<longrightarrow>
       r_status (run_dependency_check_scan st w rt sc) = ''failed''
       \<and> r_findings (run_dependency_check_scan st w rt sc) = []
       \<and> r_message (run_dependency_check_scan st w rt sc) \<noteq> [])
   \<and> (\<forall>e. subprocess_run w (dependency_check_cmd st sc) = Inl e \<longrightarrow>
         dependency_check_body st w rt sc = Inl e)
   \<and> (\<forall>out e. subprocess_run w (dependency_check_cmd st sc) = Inr out
               \<and> read_file w (report_path sc) = Inl e \<longrightarrow>
         dependency_check_body st w rt sc = Inl e)
   \<and> (\<forall>out report e. subprocess_run w (dependency_check_cmd st sc) = Inr out
               \<and> read_file w (report_path sc) = Inr report \<and> json_loads w report = Inl e \<longrightarrow>
         dependency_check_body st w rt sc = Inl e)
   \<and> (\<forall>m stderr. subprocess_run w (dependency_check_cmd st sc)
                     = Inl (CalledProcessError m stderr) \<longrightarrow>
         run_dependency_check_scan st w rt sc
           = failed_results (''Dependency-Check scan failed: '' @ stderr))"
proof -
  have t1: "r_status (run_trivy_scan st w rt sc) = ''failed''
       \<and> r_findings (run_trivy_scan st w rt sc) = []
       \<and> r_message (run_trivy_scan st w rt sc) \<noteq> []"
    if "trivy_body st w rt sc = Inl e" for e
    using that by (cases e) (simp_all add: run_trivy_scan_def failed_results_simps)
  have t2: "trivy_body st w rt sc = Inl e"
    if "subprocess_run w (trivy_cmd st sc) = Inl e" for e
    using that by (simp add: trivy_body_def)
  have t3: "trivy_body st w rt sc = Inl e"
    if "subprocess_run w (trivy_cmd st sc) = Inr out \<and> json_loads w out = Inl e" for out e
    using that by (simp add: trivy_body_def)
  have t4: "run_trivy_scan st w rt sc = failed_results (''Trivy scan failed: '' @ stderr)"
    if "subprocess_run w (trivy_cmd st sc) = Inl (CalledProcessError m stderr)" for m stderr
    using t2 [OF that] by (simp add: run_trivy_scan_def)
  have d1: "r_status (run_dependency_check_scan st w rt sc) = ''failed''
       \<and> r_findings (run_dependency_check_scan st w rt sc) = []
       \<and> r_message (run_dependency_check_scan st w rt sc) \<noteq> []"
    if "dependency_check_body st w rt sc = Inl e" for e
    using that by (cases e) (simp_all add: run_dependency_check_scan_def failed_results_simps)
  have d2: "dependency_check_body st w rt sc = Inl e"
    if "subprocess_run w (dependency_check_cmd st sc) = Inl e" for e
    using that by (simp add: dependency_check_body_def)
  have d3: "dependency_check_body st w rt sc = Inl e"
    if "subprocess_run w (dependency_check_cmd st sc) = Inr out
          \<and> read_file w (report_path sc) = Inl e" for out e
    using that by (simp add: dependency_check_body_def)
  have d4: "dependency_check_body st w rt sc = Inl e"
    if "subprocess_run w (dependency_check_cmd st sc) = Inr out
          \<and> read_file w (report_path sc) = Inr report \<and> json_loads w report = Inl e" for out report e
    using that by (simp add: dependency_check_body_def)
  have d5: "run_dependency_check_scan st w rt sc
              = failed_results (''Dependency-Check scan failed: '' @ stderr)"
    if "subprocess_run w (dependency_check_cmd st sc) = Inl (CalledProcessError m stderr)"
    for m stderr
    using d2 [OF that] by (simp add: run_dependency_check_scan_def)
  show ?thesis
    using t1 t2 t3 t4 d1 d2 d3 d4 d5 by blast
qed



theorem adapters_capture_failures_witness:
  "run_trivy_scan example_settings failing_world example_runtime
       (example_scan ''trivy'' ''running'') = failed_results ''Trivy scan failed: fatal''
   \<and> run_dependency_check_scan example_settings failing_world example_runtime
       (example_scan ''dependency-check'' ''running'')
         = failed_results ''Dependency-Check scan failed: fatal''
   \<and> r_status (run_trivy_scan example_settings malformed_world example_runtime
       (example_scan ''trivy'' ''running'')) = ''failed''
   \<and> r_findings (run_trivy_scan example_settings malformed_world example_runtime
       (example_scan ''trivy'' ''running'')) = []
   \<and> r_status (run_dependency_check_scan example_settings malformed_world example_runtime
       (example_scan ''dependency-check'' ''running'')) = ''failed''
   \<and> r_status (run_dependency_check_scan example_settings unreadable_world example_runtime
       (example_scan ''dependency-check'' ''running'')) = ''failed''
   \<and> r_findings (run_dependency_check_scan example_settings unreadable_world example_runtime
       (example_scan ''dependency-check'' ''running'')) = []"
proof -
  let ?t = "example_scan ''trivy'' ''running''"
  let ?d = "example_scan ''dependency-check'' ''running''"
  have f1: "subprocess_run failing_world (trivy_cmd example_settings ?t)
              = Inl (CalledProcessError ''non-zero exit status 1'' ''fatal'')"
    by (simp add: failing_world_def)
  have f2: "subprocess_run failing_world (dependency_check_cmd example_settings ?d)
              = Inl (CalledProcessError ''non-zero exit status 1'' ''fatal'')"
    by (simp add: failing_world_def)
  have m1: "subprocess_run malformed_world (trivy_cmd example_settings ?t) = Inr ''stdout''
            \<and> json_loads malformed_world ''stdout'' = Inl (JSONDecodeError ''Expecting value'')"
    by (simp add: malformed_world_def example_world_def)
  have m2: "subprocess_run malformed_world (dependency_check_cmd example_settings ?d)
              = Inr ''stdout''
            \<and> read_file malformed_world (report_path ?d) = Inr ''report''
            \<and> json_loads malformed_world ''report'' = Inl (JSONDecodeError ''Expecting value'')"
    by (simp add: malformed_world_def example_world_def)
  have u: "subprocess_run unreadable_world (dependency_check_cmd example_settings ?d)
              = Inr ''stdout''
            \<and> read_file unreadable_world (report_path ?d)
                = Inl (OSError ''No such file or directory'')"
    by (simp add: unreadable_world_def example_world_def)
  note a = adapters_capture_failures [of example_settings failing_world example_runtime ?t]
  note b = adapters_capture_failures [of example_settings failing_world example_runtime ?d]
  note c = adapters_capture_failures [of example_settings malformed_world example_runtime ?t]
  note d = adapters_capture_failures [of example_settings malformed_world example_runtime ?d]
  note e = adapters_capture_failures [of example_settings unreadable_world example_runtime ?d]
  have r1: "run_trivy_scan example_settings failing_world example_runtime ?t
              = failed_results ''Trivy scan failed: fatal''"
    using a f1 by simp
  have r2: "run_dependency_check_scan example_settings failing_world example_runtime ?d
              = failed_results ''Dependency-Check scan failed: fatal''"
    using b f2 by simp
  have r3: "r_status (run_trivy_scan example_settings malformed_world example_runtime ?t)
              = ''failed''
            \<and> r_findings (run_trivy_scan example_settings malformed_world example_runtime ?t)
              = []"
    using c m1 by blast
  have r4: "r_status (run_dependency_check_scan example_settings malformed_world
              example_runtime ?d) = ''failed''"
    using d m2 by blast
  have r5: "r_status (run_dependency_check_scan example_settings unreadable_world
              example_runtime ?d) = ''failed''
            \<and> r_findings (run_dependency_check_scan example_settings unreadable_world
              example_runtime ?d) = []"
    using e u by blast
  show ?thesis using r1 r2 r3 r4 r5 by blast
qed

subsection \<open>Counts of a completed scan\<close>

lemma dict_get_default_irrelevant:
  "k \<in> fst ` set d \<Longrightarrow> dict_get d k a = dict_get d k b"
  by (induction d) force+

lemma map_exn_Inr_set:
  "map_exn g xs = Inr ys \<Longrightarrow> y \<in> set ys \<Longrightarrow> \<exists>x \<in> set xs. g x = Inr y"
  by (induction xs arbitrary: ys) (auto simp: bind_exn_Inr_iff)

lemma trivy_finding_severity:
  "trivy_finding rt res vuln = Inr f \<Longrightarrow> ''severity'' \<in> fst ` set f"
  by (auto simp: trivy_finding_def bind_exn_Inr_iff)

lemma dependency_check_finding_severity:
  "dependency_check_finding rt dep vuln = Inr f \<Longrightarrow> ''severity'' \<in> fst ` set f"
  by (auto simp: dependency_check_finding_def bind_exn_Inr_iff)

lemma trivy_findings_severity:
  assumes "trivy_findings rt output = Inr fs" "f \<in> set fs"
  shows "''severity'' \<in> fst ` set f"
proof -
  obtain results fss where
    m: "map_exn (\<lambda>res.
                 bind_exn (py_get res ''Vulnerabilities'' (PList [])) (\<lambda>vs.
                 bind_exn (py_iter vs) (\<lambda>vulns.
                 map_exn (trivy_finding rt res) vulns))) results = Inr fss"
    and fs: "fs = concat fss"
    using assms(1) by (auto simp: trivy_findings_def bind_exn_Inr_iff)
  obtain group where g: "group \<in> set fss" "f \<in> set group"
    using assms(2) fs by auto
  obtain res where "bind_exn (py_get res ''Vulnerabilities'' (PList [])) (\<lambda>vs.
                 bind_exn (py_iter vs) (\<lambda>vulns.
                 map_exn (trivy_finding rt res) vulns)) = Inr group"
    using map_exn_Inr_set [OF m g(1)] by blast
  then obtain vulns where v: "map_exn (trivy_finding rt res) vulns = Inr group"
    by (auto simp: bind_exn_Inr_iff)
  obtain vuln where "trivy_finding rt res vuln = Inr f"
    using map_exn_Inr_set [OF v g(2)] by blast
  then show ?thesis by (rule trivy_finding_severity)
qed

lemma dependency_check_findings_severity:
  assumes "dependency_check_findings rt output = Inr fs" "f \<in> set fs"
  shows "''severity'' \<in> fst ` set f"
proof -
  obtain deps fss where
    m: "map_exn (\<lambda>dependency.
                 bind_exn (py_get dependency ''vulnerabilities'' (PList [])) (\<lambda>vs.
                 bind_exn (py_iter vs) (\<lambda>vulns.
                 map_exn (dependency_check_finding rt dependency) vulns))) deps = Inr fss"
    and fs: "fs = concat fss"
    using assms(1) by (auto simp: dependency_check_findings_def bind_exn_Inr_iff)
  obtain group where g: "group \<in> set fss" "f \<in> set group"
    using assms(2) fs by auto
  obtain dep where "bind_exn (py_get dep ''vulnerabilities'' (PList [])) (\<lambda>vs.
                 bind_exn (py_iter vs) (\<lambda>vulns.
                 map_exn (dependency_check_finding rt dep) vulns)) = Inr group"
    using map_exn_Inr_set [OF m g(1)] by blast
  then obtain vulns where v: "map_exn (dependency_check_finding rt dep) vulns = Inr group"
    by (auto simp: bind_exn_Inr_iff)
  obtain vuln where "dependency_check_finding rt dep vuln = Inr f"
    using map_exn_Inr_set [OF v g(2)] by blast
  then show ?thesis by (rule dependency_check_finding_severity)
qed

lemma run_trivy_scan_severity:
  assumes "f \<in> set (r_findings (run_trivy_scan st w rt sc))"
  shows "''severity'' \<in> fst ` set f"
proof (cases "trivy_body st w rt sc")
  case (Inl e)
  then show ?thesis
    using assms by (simp add: run_trivy_scan_raised failed_results_simps)
next
  case (Inr r)
  then obtain outp fs where "trivy_findings rt outp = Inr fs" "r = success_results fs outp"
    by (auto simp: trivy_body_def bind_exn_Inr_iff)
  then show ?thesis
    using assms Inr trivy_findings_severity
    by (auto simp: run_trivy_scan_def success_results_simps)
qed

lemma run_dependency_check_scan_severity:
  assumes "f \<in> set (r_findings (run_dependency_check_scan st w rt sc))"
  shows "''severity'' \<in> fst ` set f"
proof (cases "dependency_check_body st w rt sc")
  case (Inl e)
  then show ?thesis
    using assms by (simp add: run_dependency_check_scan_raised failed_results_simps)
next
  case (Inr r)
  then obtain outp fs where
    "dependency_check_findings rt outp = Inr fs" "r = success_results fs outp"
    by (auto simp: dependency_check_body_def bind_exn_Inr_iff)
  then show ?thesis
    using assms Inr dependency_check_findings_severity
    by (auto simp: run_dependency_check_scan_def success_results_simps)
qed

lemma run_openvas_scan_severity:
  assumes "f \<in> set (r_findings (run_openvas_scan sc))"
  shows "''severity'' \<in> fst ` set f"
  using assms by (auto simp: run_openvas_scan_def success_results_simps openvas_findings_def)



lemma fold_create_vulnerability:
  "fold (\<lambda>finding d. fst (create_vulnerability_from_finding d now sid a finding)) fs db
     = db\<lparr>vulnerabilities := vulnerabilities db @ map (vulnerability_from_finding now sid a) fs\<rparr>"
  by (induction fs arbitrary: db) (simp_all add: create_vulnerability_from_finding_def Let_def)

lemma process_scan_findings_appends:
  "get_scan db sid = Some sc \<Longrightarrow>
   process_scan_findings db now sid fs
     = db\<lparr>vulnerabilities :=
          vulnerabilities db @ map (vulnerability_from_finding now sid (asset_id sc)) fs\<rparr>"
  by (simp add: process_scan_findings_def fold_create_vulnerability)

lemma get_scan_vulnerabilities_update:
  "get_scan (db\<lparr>vulnerabilities := vs\<rparr>) sid = get_scan db sid"
  by (simp add: get_scan_def)

lemma vulnerabilities_commit_scan:
  "vulnerabilities (commit_scan db s) = vulnerabilities db"
  by (simp add: commit_scan_def)

lemma update_scan_status_failed:
  assumes "get_scan db sid = Some sc"
  shows "fst (update_scan_status db now sid ''failed'' msg None None None None None)
           = commit_scan db (sc\<lparr>status := ''failed'', updated_at := now\<rparr>)"
  using assms by (simp add: update_scan_status_def Let_def)

lemma update_scan_status_completed:
  assumes "get_scan db sid = Some sc"
  shows "fst (update_scan_status db now sid ''completed'' msg
                (Some n) (Some c) (Some h) (Some m) (Some l))
           = commit_scan db (sc\<lparr>status := ''completed'', updated_at := now,
                completed_at := Some now, vulnerabilities_count := n, critical_count := c,
                high_count := h, medium_count := m, low_count := l\<rparr>)"
  using assms by (simp add: update_scan_status_def Let_def)

lemma get_scan_after_failed:
  assumes "get_scan db sid = Some sc"
  shows "get_scan (fst (update_scan_status db now sid ''failed'' msg None None None None None)) sid
           = Some (sc\<lparr>status := ''failed'', updated_at := now\<rparr>)"
proof -
  have "id_scan (sc\<lparr>status := ''failed'', updated_at := now\<rparr>) = sid"
    using get_scan_id [OF assms] by simp
  then show ?thesis
    unfolding update_scan_status_failed [OF assms]
    using assms by (rule get_scan_commit_scan [rotated])
qed

lemma count_severity_records:
  assumes "\<forall>f \<in> set fs. ''severity'' \<in> fst ` set f"
  shows "count_severity fs sev
     = length (filter (\<lambda>v. severity v = PStr sev) (map (vulnerability_from_finding now sid a) fs))"
  using assms
proof (induction fs)
  case Nil
  then show ?case by (simp add: count_severity_def)
next
  case (Cons f fs)
  have k: "''severity'' \<in> fst ` set f" using Cons.prems by simp
  have "severity (vulnerability_from_finding now sid a f) = dict_get f ''severity'' PNone"
    using dict_get_default_irrelevant [OF k, of "PStr ''low''" PNone]
    by (simp add: vulnerability_from_finding_def)
  then show ?case
    using Cons by (simp add: count_severity_def)
qed

lemma severity_buckets_le:
  "length (filter (\<lambda>v. severity v = PStr ''critical'') vs)
   + length (filter (\<lambda>v. severity v = PStr ''high'') vs)
   + length (filter (\<lambda>v. severity v = PStr ''medium'') vs)
   + length (filter (\<lambda>v. severity v = PStr ''low'') vs) \<le> length vs"
  by (induction vs) auto

lemma severity_buckets_eq:
  "\<forall>v \<in> set vs. severity v \<in> {PStr ''critical'', PStr ''high'', PStr ''medium'', PStr ''low''}
   \<Longrightarrow> length (filter (\<lambda>v. severity v = PStr ''critical'') vs)
   + length (filter (\<lambda>v. severity v = PStr ''high'') vs)
   + length (filter (\<lambda>v. severity v = PStr ''medium'') vs)
   + length (filter (\<lambda>v. severity v = PStr ''low'') vs) = length vs"
  by (induction vs) auto

lemma process_results_completed:
  assumes g: "get_scan db1 sid = Some sc1"
    and run: "process_results w db1 now sc sid r = (db', res)"
    and g': "get_scan db' sid = Some s'"
    and st: "status s' = ''completed''"
  shows "vulnerabilities db'
           = vulnerabilities db1 @ map (vulnerability_from_finding now sid (asset_id sc1)) (r_findings r)
         \<and> vulnerabilities_count s' = length (r_findings r)
         \<and> critical_count s' = count_severity (r_findings r) ''critical''
         \<and> high_count s' = count_severity (r_findings r) ''high''
         \<and> medium_count s' = count_severity (r_findings r) ''medium''
         \<and> low_count s' = count_severity (r_findings r) ''low''"
proof (cases "r_status r = ''success''")
  case False
  let ?db3 = "fst (update_scan_status db1 now sid ''failed'' (Some (r_message r))
                     None None None None None)"
  have g3: "get_scan ?db3 sid = Some (sc1\<lparr>status := ''failed'', updated_at := now\<rparr>)"
    using g by (rule get_scan_after_failed)
  have "status s' = ''failed''"
  proof (cases "send_notification w ''Scan Failed''
                   (''Scan '' @ [CHR 0x27] @ name sc @ [CHR 0x27] @ '' failed: ''
                      @ r_message r) ''error''")
    case None
    then have "db' = ?db3"
      using run False by (auto simp: process_results_def Let_def)
    then show ?thesis using g3 g' by auto
  next
    case (Some e)
    then have "db' = fst (update_scan_status ?db3 now sid ''failed'' (Some (str_exn e))
                     None None None None None)"
      using run False by (auto simp: process_results_def Let_def handle_task_exception_def)
    then show ?thesis
      using get_scan_after_failed [OF g3, of now "Some (str_exn e)"] g' by auto
  qed
  then show ?thesis using st by simp
next
  case True
  let ?fs = "r_findings r"
  let ?db2 = "db1\<lparr>vulnerabilities :=
          vulnerabilities db1 @ map (vulnerability_from_finding now sid (asset_id sc1)) ?fs\<rparr>"
  let ?s7 = "sc1\<lparr>status := ''completed'', updated_at := now,
                completed_at := Some now, vulnerabilities_count := length ?fs,
                critical_count := count_severity ?fs ''critical'',
                high_count := count_severity ?fs ''high'',
                medium_count := count_severity ?fs ''medium'',
                low_count := count_severity ?fs ''low''\<rparr>"
  let ?db3 = "commit_scan ?db2 ?s7"
  have p: "process_scan_findings db1 now sid ?fs = ?db2"
    using g by (rule process_scan_findings_appends)
  have g2: "get_scan ?db2 sid = Some sc1"
    using g by (simp add: get_scan_vulnerabilities_update)
  have u: "fst (update_scan_status ?db2 now sid ''completed'' msg
                (Some (length ?fs)) (Some (count_severity ?fs ''critical''))
                (Some (count_severity ?fs ''high'')) (Some (count_severity ?fs ''medium''))
                (Some (count_severity ?fs ''low''))) = ?db3" for msg
    using g2 by (rule update_scan_status_completed)
  have "id_scan ?s7 = sid" using get_scan_id [OF g] by simp
  then have g3: "get_scan ?db3 sid = Some ?s7"
    using g2 by (rule get_scan_commit_scan [rotated])
  show ?thesis
  proof (cases "send_notification w ''Scan Completed''
                   (''Scan '' @ [CHR 0x27] @ name sc @ [CHR 0x27]
                      @ '' completed successfully with ''
                      @ str_nat (length ?fs) @ '' findings'') ''success''")
    case None
    then have "db' = ?db3"
      using run True by (auto simp: process_results_def Let_def p u)
    then have "s' = ?s7" and "vulnerabilities db' = vulnerabilities ?db2"
      using g3 g' by (auto simp: vulnerabilities_commit_scan)
    then show ?thesis by simp
  next
    case (Some e)
    then have "db' = fst (update_scan_status ?db3 now sid ''failed'' (Some (str_exn e))
                     None None None None None)"
      using run True by (auto simp: process_results_def Let_def p u handle_task_exception_def)
    then have "status s' = ''failed''"
      using get_scan_after_failed [OF g3, of now "Some (str_exn e)"] g' by auto
    then show ?thesis using st by simp
  qed
qed



lemma completed_counts_from_results:
  assumes g: "get_scan db1 sid = Some sc1"
    and run: "process_results w db1 now sc sid r = (db', res)"
    and g': "get_scan db' sid = Some s'"
    and st: "status s' = ''completed''"
    and sev: "\<forall>f \<in> set (r_findings r). ''severity'' \<in> fst ` set f"
  shows "\<exists>new. vulnerabilities db' = vulnerabilities db1 @ new
      \<and> (\<forall>v \<in> set new. v_scan_id v = sid)
      \<and> vulnerabilities_count s' = length new
      \<and> critical_count s' = length (filter (\<lambda>v. severity v = PStr ''critical'') new)
      \<and> high_count s' = length (filter (\<lambda>v. severity v = PStr ''high'') new)
      \<and> medium_count s' = length (filter (\<lambda>v. severity v = PStr ''medium'') new)
      \<and> low_count s' = length (filter (\<lambda>v. severity v = PStr ''low'') new)"
proof -
  let ?new = "map (vulnerability_from_finding now sid (asset_id sc1)) (r_findings r)"
  note c = process_results_completed [OF g run g' st]
  have "\<forall>v \<in> set ?new. v_scan_id v = sid"
    by (auto simp: vulnerability_from_finding_def)
  moreover have "vulnerabilities db' = vulnerabilities db1 @ ?new"
    using c by blast
  moreover have "vulnerabilities_count s' = length ?new"
    using c by simp
  moreover have "critical_count s' = length (filter (\<lambda>v. severity v = PStr ''critical'') ?new)"
    using c count_severity_records [OF sev, of "''critical''" now sid "asset_id sc1"] by simp
  moreover have "high_count s' = length (filter (\<lambda>v. severity v = PStr ''high'') ?new)"
    using c count_severity_records [OF sev, of "''high''" now sid "asset_id sc1"] by simp
  moreover have "medium_count s' = length (filter (\<lambda>v. severity v = PStr ''medium'') ?new)"
    using c count_severity_records [OF sev, of "''medium''" now sid "asset_id sc1"] by simp
  moreover have "low_count s' = length (filter (\<lambda>v. severity v = PStr ''low'') ?new)"
    using c count_severity_records [OF sev, of "''low''" now sid "asset_id sc1"] by simp
  ultimately show ?thesis by blast
qed

text \<open>
  C2, amended. When a run of the scan task leaves the scan completed, the run has added
  one vulnerability record per finding, all for this scan; the stored total is their
  number and each of the four severity counts is the number of those records with that
  severity. A record with any other severity is in the total and in no severity count:
  the four counts sum to at most the total, and to the total when every record has one of
  the four severities.
\<close>

theorem completed_scan_counts:
  assumes "get_scan db scan_id = Some s0"
    and "run_scan_task st w rt db now scan_id = (db', res)"
    and "get_scan db' scan_id = Some s'"
    and "status s' = ''completed''"
  shows "\<exists>new. vulnerabilities db' = vulnerabilities db @ new
      \<and> (\<forall>v \<in> set new. v_scan_id v = scan_id)
      \<and> vulnerabilities_count s' = length new
      \<and> critical_count s' = length (filter (\<lambda>v. severity v = PStr ''critical'') new)
      \<and> high_count s' = length (filter (\<lambda>v. severity v = PStr ''high'') new)
      \<and> medium_count s' = length (filter (\<lambda>v. severity v = PStr ''medium'') new)
      \<and> low_count s' = length (filter (\<lambda>v. severity v = PStr ''low'') new)
      \<and> critical_count s' + high_count s' + medium_count s' + low_count s'
          \<le> vulnerabilities_count s'
      \<and> ((\<forall>v \<in> set new. severity v \<in>
              {PStr ''critical'', PStr ''high'', PStr ''medium'', PStr ''low''})
          \<longrightarrow> critical_count s' + high_count s' + medium_count s' + low_count s'
                = vulnerabilities_count s')"
proof -
  let ?sc = "s0\<lparr>status := ''running'', started_at := Some now, updated_at := now\<rparr>"
  let ?db1 = "commit_scan db ?sc"
  have "id_scan ?sc = scan_id"
    using get_scan_id [OF assms(1)] by simp
  then have g1: "get_scan ?db1 scan_id = Some ?sc"
    using assms(1) by (rule get_scan_commit_scan [rotated])
  have v1: "vulnerabilities ?db1 = vulnerabilities db"
    by (rule vulnerabilities_commit_scan)
  have "\<exists>r. process_results w ?db1 now ?sc scan_id r = (db', res)
          \<and> (\<forall>f \<in> set (r_findings r). ''severity'' \<in> fst ` set f)"
  proof (cases "scanner_type s0 = ''trivy''")
    case True
    then have "process_results w ?db1 now ?sc scan_id (run_trivy_scan st w rt ?sc) = (db', res)"
      using assms(1,2) by (simp add: run_scan_task_def Let_def)
    then show ?thesis using run_trivy_scan_severity by blast
  next
    case nt: False
    show ?thesis
    proof (cases "scanner_type s0 = ''openvas''")
      case True
      then have "process_results w ?db1 now ?sc scan_id (run_openvas_scan ?sc) = (db', res)"
        using assms(1,2) nt by (simp add: run_scan_task_def Let_def)
      then show ?thesis using run_openvas_scan_severity by blast
    next
      case no: False
      show ?thesis
      proof (cases "scanner_type s0 = ''dependency-check''")
        case True
        then have "process_results w ?db1 now ?sc scan_id
                     (run_dependency_check_scan st w rt ?sc) = (db', res)"
          using assms(1,2) nt no by (simp add: run_scan_task_def Let_def)
        then show ?thesis using run_dependency_check_scan_severity by blast
      next
        case False
        then have "db' = fst (update_scan_status ?db1 now scan_id ''failed''
                        (Some (''Unsupported scanner type: '' @ scanner_type ?sc))
                        None None None None None)"
          using assms(1,2) nt no by (auto simp: run_scan_task_def Let_def)
        then have "status s' = ''failed''"
          using get_scan_after_failed [OF g1, of now
              "Some (''Unsupported scanner type: '' @ scanner_type ?sc)"] assms(3)
          by auto
        then show ?thesis using assms(4) by simp
      qed
    qed
  qed
  then obtain r where run: "process_results w ?db1 now ?sc scan_id r = (db', res)"
    and sev: "\<forall>f \<in> set (r_findings r). ''severity'' \<in> fst ` set f"
    by blast
  obtain new where n: "vulnerabilities db' = vulnerabilities db @ new"
      "\<forall>v \<in> set new. v_scan_id v = scan_id"
      "vulnerabilities_count s' = length new"
      "critical_count s' = length (filter (\<lambda>v. severity v = PStr ''critical'') new)"
      "high_count s' = length (filter (\<lambda>v. severity v = PStr ''high'') new)"
      "medium_count s' = length (filter (\<lambda>v. severity v = PStr ''medium'') new)"
      "low_count s' = length (filter (\<lambda>v. severity v = PStr ''low'') new)"
    using completed_counts_from_results [OF g1 run assms(3,4) sev] v1 by auto
  have le: "critical_count s' + high_count s' + medium_count s' + low_count s'
          \<le> vulnerabilities_count s'"
    unfolding n(3-7) by (rule severity_buckets_le)
  have eq: "critical_count s' + high_count s' + medium_count s' + low_count s'
                = vulnerabilities_count s'"
    if "\<forall>v \<in> set new. severity v \<in>
              {PStr ''critical'', PStr ''high'', PStr ''medium'', PStr ''low''}"
    unfolding n(3-7) using that by (rule severity_buckets_eq)
  show ?thesis
    using n le eq by blast
qed

text \<open>
  C2, as stated, evaluated on the code. A Dependency-Check report with one vulnerability
  of severity MODERATE completes the scan with a total of 1 and all four severity counts
  0, the record having severity "moderate".
\<close>

theorem completed_scan_counts_counterexample:
  "map status (scans (fst (run_scan_task example_settings (example_world moderate_report)
      example_runtime (example_db ''dependency-check'' ''pending'') 20 1))) = [''completed'']
   \<and> map severity (vulnerabilities (fst (run_scan_task example_settings
      (example_world moderate_report) example_runtime
      (example_db ''dependency-check'' ''pending'') 20 1))) = [PStr ''moderate'']
   \<and> map vulnerabilities_count (scans (fst (run_scan_task example_settings
      (example_world moderate_report) example_runtime
      (example_db ''dependency-check'' ''pending'') 20 1))) = [1]
   \<and> map critical_count (scans (fst (run_scan_task example_settings
      (example_world moderate_report) example_runtime
      (example_db ''dependency-check'' ''pending'') 20 1))) = [0]
   \<and> map high_count (scans (fst (run_scan_task example_settings
      (example_world moderate_report) example_runtime
      (example_db ''dependency-check'' ''pending'') 20 1))) = [0]
   \<and> map medium_count (scans (fst (run_scan_task example_settings
      (example_world moderate_report) example_runtime
      (example_db ''dependency-check'' ''pending'') 20 1))) = [0]
   \<and> map low_count (scans (fst (run_scan_task example_settings
      (example_world moderate_report) example_runtime
      (example_db ''dependency-check'' ''pending'') 20 1))) = [0]"
proof -
  have f: "dependency_check_findings example_runtime moderate_report =
      Inr [[(''title'', PStr ''CVE-2024-0001''), (''description'', PStr []),
            (''cve_id'', PStr ''CVE-2024-0001''), (''severity'', PStr ''moderate''),
            (''cvss_score'', PFloat 0), (''cvss_vector'', PStr []),
            (''affected_component'', PStr ''lib.jar''), (''affected_version'', PStr []),
            (''exploit_available'', PBool False), (''patch_available'', PBool True),
            (''metadata'', PDict [(''package_name'', PStr ''lib.jar''),
                                  (''references'', PList [])])]]"
    by (simp add: dependency_check_findings_def dependency_check_finding_def
        moderate_report_def lower_char_def)
  have r: "run_dependency_check_scan example_settings (example_world moderate_report)
             example_runtime sc =
           success_results
             [[(''title'', PStr ''CVE-2024-0001''), (''description'', PStr []),
            (''cve_id'', PStr ''CVE-2024-0001''), (''severity'', PStr ''moderate''),
            (''cvss_score'', PFloat 0), (''cvss_vector'', PStr []),
            (''affected_component'', PStr ''lib.jar''), (''affected_version'', PStr []),
            (''exploit_available'', PBool False), (''patch_available'', PBool True),
            (''metadata'', PDict [(''package_name'', PStr ''lib.jar''),
                                  (''references'', PList [])])]] moderate_report" for sc
    by (simp add: run_dependency_check_scan_def dependency_check_body_def example_world_def f)
  have sn: "send_notification (example_world moderate_report) t m k = None" for t m k
    by (simp add: example_world_def)
  show ?thesis
    by (simp add: run_scan_task_def r sn process_results_def process_scan_findings_def
        create_vulnerability_from_finding_def vulnerability_from_finding_def
        update_scan_status_def count_severity_def success_results_def
        get_scan_def commit_scan_def example_db_def example_scan_def
        Let_def)
qed

theorem completed_scan_counts_witness:
  "\<exists>db' res s'. run_scan_task example_settings (example_world PNone) example_runtime
        (example_db ''openvas'' ''pending'') 20 1 = (db', res)
     \<and> get_scan db' 1 = Some s' \<and> status s' = ''completed''
     \<and> length (vulnerabilities db') = 2
     \<and> vulnerabilities_count s' = 2 \<and> critical_count s' = 0 \<and> high_count s' = 0
     \<and> medium_count s' = 1 \<and> low_count s' = 1"
proof -
  obtain db' res where run: "run_scan_task example_settings (example_world PNone)
        example_runtime (example_db ''openvas'' ''pending'') 20 1 = (db', res)"
    by (cases "run_scan_task example_settings (example_world PNone)
        example_runtime (example_db ''openvas'' ''pending'') 20 1") blast
  have g0: "get_scan (example_db ''openvas'' ''pending'') 1
              = Some (example_scan ''openvas'' ''pending'')"
    by (simp add: get_scan_def example_db_def example_scan_def)
  have sc: "scans db' = [(example_scan ''openvas'' ''pending'')
              \<lparr>status := ''completed'', started_at := Some 20, updated_at := 20,
               completed_at := Some 20, vulnerabilities_count := 2,
               medium_count := 1, low_count := 1\<rparr>]"
    using run
    by (auto simp: run_scan_task_def process_results_def process_scan_findings_def
        run_openvas_scan_def openvas_findings_def
        create_vulnerability_from_finding_def
        update_scan_status_def count_severity_def success_results_def
        get_scan_def commit_scan_def example_db_def example_scan_def example_world_def
        Let_def)
  let ?s' = "(example_scan ''openvas'' ''pending'')
              \<lparr>status := ''completed'', started_at := Some 20, updated_at := 20,
               completed_at := Some 20, vulnerabilities_count := 2,
               medium_count := 1, low_count := 1\<rparr>"
  have g': "get_scan db' 1 = Some ?s'"
    by (simp add: get_scan_def sc example_scan_def)
  have st: "status ?s' = ''completed''" by simp
  obtain new where "vulnerabilities db' = vulnerabilities (example_db ''openvas'' ''pending'') @ new"
    "vulnerabilities_count ?s' = length new"
    using completed_scan_counts [OF g0 run g' st] by blast
  then have "length (vulnerabilities db') = 2"
    by (simp add: example_db_def)
  then show ?thesis
    using run g' by (simp add: example_scan_def)
qed


end
